theory Spec2Isabelle
  imports Complex_Main "HOL-Library.Multiset"
begin

section \<open>Scatter-and-reconstruct animation engine: shallow embedding\<close>

text \<open>
  The TypeScript sources are embedded function by function. JavaScript numbers are
  modelled as real numbers and the arithmetic as exact: the rounding of IEEE doubles is
  not modelled, except for the one product whose floor is taken. Where division by zero
  can occur, the special values of IEEE arithmetic and the sign of zero are written out.
  Every call of \<^verbatim>\<open>Math.random()\<close> reads the next element of a sequence
  \<open>rnd :: nat \<Rightarrow> real\<close>, whose elements lie in \<open>[0, 1)\<close> by the contract of
  \<^verbatim>\<open>Math.random\<close>; the index of the next element is threaded through the loops.

  App is the component with the animation overlay (src/unnamed/part_002; its
  \<^verbatim>\<open>shuffleArray\<close> and its shatter and load handlers have the same text in
  src/frontend/src/App.tsx), ReconstructionAnimation the component of src/unnamed/part_000,
  ScatteredPieces the one of src/frontend/src/ScatteredPieces.tsx. Line numbers refer to
  these files.
\<close>

subsection \<open>Piece order: \<^verbatim>\<open>shuffleArray\<close> (App.tsx, lines 6-13)\<close>

text \<open>
  \<^verbatim>\<open>Math.floor(Math.random() * (i + 1))\<close>, for the random value \<open>r\<close>. The floor makes
  the rounding of the product observable, so here the rounding is part of the model:
  \<open>fl\<close> maps the exact product to the double that the multiplication returns. The
  contract used below is that this double is not negative and below \<open>i + 1\<close>, as it is
  for a double \<open>r\<close> in \<open>[0, 1)\<close> and an array of fewer than \<open>2^53\<close> elements.
\<close>

definition random_index :: "(real \<Rightarrow> real) \<Rightarrow> real \<Rightarrow> nat \<Rightarrow> nat" where
  "random_index fl r i = nat \<lfloor>fl (r * (real i + 1))\<rfloor>"

text \<open>
  \<^verbatim>\<open>[arr[i], arr[j]] = [arr[j], arr[i]]\<close>: the right-hand side is read first, then
  \<open>arr[i]\<close> is written, then \<open>arr[j]\<close>.
\<close>

definition swap :: "nat \<Rightarrow> nat \<Rightarrow> 'a list \<Rightarrow> 'a list" where
  "swap i j arr = arr[i := arr ! j, j := arr ! i]"

text \<open>
  \<^verbatim>\<open>for (let i = arr.length - 1; i > 0; i--)\<close>: the fourth argument is the loop variable
  \<open>i\<close>, the third the number of random values consumed so far.
\<close>

fun shuffleLoop :: "(real \<Rightarrow> real) \<Rightarrow> (nat \<Rightarrow> real) \<Rightarrow> nat \<Rightarrow> nat \<Rightarrow> 'a list \<Rightarrow> 'a list" where
  "shuffleLoop fl rnd k 0 arr = arr"
| "shuffleLoop fl rnd k (Suc n) arr =
     (let i = Suc n; j = random_index fl (rnd k) i
      in shuffleLoop fl rnd (Suc k) n (swap i j arr))"

text \<open>The function on values: the copy \<^verbatim>\<open>[...array]\<close> is shuffled and returned.\<close>

definition shuffleArray :: "(real \<Rightarrow> real) \<Rightarrow> (nat \<Rightarrow> real) \<Rightarrow> 'a list \<Rightarrow> 'a list" where
  "shuffleArray fl rnd array = (let arr = array in shuffleLoop fl rnd 0 (length arr - 1) arr)"

text \<open>
  The same function on a store of arrays, where aliasing is visible. An address is an
  index into the store; \<^verbatim>\<open>[...array]\<close> allocates the next free address and copies the
  elements; the loop writes through the address of the copy only.
\<close>

type_synonym 'a heap = "'a list list"

fun shuffleLoop_heap ::
  "(real \<Rightarrow> real) \<Rightarrow> (nat \<Rightarrow> real) \<Rightarrow> nat \<Rightarrow> nat \<Rightarrow> nat \<Rightarrow> 'a heap \<Rightarrow> 'a heap" where
  "shuffleLoop_heap fl rnd k 0 arr h = h"
| "shuffleLoop_heap fl rnd k (Suc n) arr h =
     (let i = Suc n; j = random_index fl (rnd k) i
      in shuffleLoop_heap fl rnd (Suc k) n arr (h[arr := swap i j (h ! arr)]))"

definition shuffleArray_heap ::
  "(real \<Rightarrow> real) \<Rightarrow> (nat \<Rightarrow> real) \<Rightarrow> nat \<Rightarrow> 'a heap \<Rightarrow> nat \<times> 'a heap" where
  "shuffleArray_heap fl rnd array h =
     (let arr = length h; h1 = h @ [h ! array]
      in (arr, shuffleLoop_heap fl rnd 0 (length (h1 ! arr) - 1) arr h1))"

subsection \<open>JavaScript numbers at division by zero\<close>

text \<open>
  The coordinate transforms divide by sizes that may be zero. IEEE arithmetic does not
  fail there: it yields \<open>Infinity\<close>, \<open>-Infinity\<close> or \<open>NaN\<close>, which then propagate,
  and the sign of the result depends on the sign of the zero. \<open>jsnum\<close> adds these
  values to the real numbers: \<open>Num 0\<close> is the positive zero, \<open>NegZero\<close> the negative
  one. The operations follow the IEEE rules for the special values and for the sign of
  a zero result; on other finite numbers they are the exact operations (rounding and
  overflow are not modelled). A number that enters a transform as an input is a real
  number, so an input that is zero is the positive zero.
\<close>

datatype jsnum = Num real | NegZero | PosInf | NegInf | NaN

text \<open>The value of a finite number (0 for both zeros), the sign bit, and two tests.\<close>

fun the_real :: "jsnum \<Rightarrow> real" where
  "the_real (Num a) = a"
| "the_real x = 0"

fun jnegative :: "jsnum \<Rightarrow> bool" where
  "jnegative (Num a) = (a < 0)"
| "jnegative NegZero = True"
| "jnegative NegInf = True"
| "jnegative x = False"

fun jiszero :: "jsnum \<Rightarrow> bool" where
  "jiszero (Num a) = (a = 0)"
| "jiszero NegZero = True"
| "jiszero x = False"

fun jisinf :: "jsnum \<Rightarrow> bool" where
  "jisinf PosInf = True"
| "jisinf NegInf = True"
| "jisinf x = False"

text \<open>The zero and the infinity of a given sign.\<close>

definition zero_of :: "bool \<Rightarrow> jsnum" where
  "zero_of negative = (if negative then NegZero else Num 0)"

definition inf_of :: "bool \<Rightarrow> jsnum" where
  "inf_of negative = (if negative then NegInf else PosInf)"

fun jneg :: "jsnum \<Rightarrow> jsnum" where
  "jneg (Num a) = (if a = 0 then NegZero else Num (- a))"
| "jneg NegZero = Num 0"
| "jneg PosInf = NegInf"
| "jneg NegInf = PosInf"
| "jneg NaN = NaN"

definition jadd :: "jsnum \<Rightarrow> jsnum \<Rightarrow> jsnum" where
  "jadd x y =
     (if x = NaN \<or> y = NaN then NaN
      else if jisinf x \<and> jisinf y then (if x = y then x else NaN)
      else if jisinf x then x
      else if jisinf y then y
      else if x = NegZero \<and> y = NegZero then NegZero
      else Num (the_real x + the_real y))"

definition jmul :: "jsnum \<Rightarrow> jsnum \<Rightarrow> jsnum" where
  "jmul x y =
     (if x = NaN \<or> y = NaN then NaN
      else if (jisinf x \<and> jiszero y) \<or> (jiszero x \<and> jisinf y) then NaN
      else if jisinf x \<or> jisinf y then inf_of (jnegative x \<noteq> jnegative y)
      else if jiszero x \<or> jiszero y then zero_of (jnegative x \<noteq> jnegative y)
      else Num (the_real x * the_real y))"

definition jdiv :: "jsnum \<Rightarrow> jsnum \<Rightarrow> jsnum" where
  "jdiv x y =
     (if x = NaN \<or> y = NaN then NaN
      else if (jisinf x \<and> jisinf y) \<or> (jiszero x \<and> jiszero y) then NaN
      else if jisinf x \<or> jiszero y then inf_of (jnegative x \<noteq> jnegative y)
      else if jiszero x \<or> jisinf y then zero_of (jnegative x \<noteq> jnegative y)
      else Num (the_real x / the_real y))"

text \<open>\<^verbatim>\<open>Math.min\<close> of two numbers: \<open>NaN\<close> if either is \<open>NaN\<close>; \<open>-0\<close> is below \<open>+0\<close>.\<close>

definition jmin :: "jsnum \<Rightarrow> jsnum \<Rightarrow> jsnum" where
  "jmin x y =
     (if x = NaN \<or> y = NaN then NaN
      else if x = NegInf \<or> y = NegInf then NegInf
      else if x = PosInf then y
      else if y = PosInf then x
      else if the_real x < the_real y then x
      else if the_real y < the_real x then y
      else if x = NegZero \<or> y = NegZero then NegZero
      else x)"

instantiation jsnum :: "{plus, minus, times, inverse}"
begin

definition plus_jsnum :: "jsnum \<Rightarrow> jsnum \<Rightarrow> jsnum" where
  "plus_jsnum = jadd"

definition minus_jsnum :: "jsnum \<Rightarrow> jsnum \<Rightarrow> jsnum" where
  "minus_jsnum x y = jadd x (jneg y)"

definition times_jsnum :: "jsnum \<Rightarrow> jsnum \<Rightarrow> jsnum" where
  "times_jsnum = jmul"

definition divide_jsnum :: "jsnum \<Rightarrow> jsnum \<Rightarrow> jsnum" where
  "divide_jsnum = jdiv"

definition inverse_jsnum :: "jsnum \<Rightarrow> jsnum" where
  "inverse_jsnum x = jdiv (Num 1) x"

instance ..

end

subsection \<open>Positions and sizes\<close>

text \<open>
  \<^verbatim>\<open>interface Position { top: number; left: number }\<close>, over the finite numbers
  (\<open>real position\<close>) or over \<open>jsnum\<close>. \<open>dims\<close> is a \<^verbatim>\<open>{ width, height }\<close> object.
\<close>

record 'n position =
  pos_top :: 'n
  pos_left :: 'n

record dims =
  width :: real
  height :: real

subsection \<open>Scatter placement (ScatteredPieces.tsx, lines 33-60; ReconstructionAnimation, lines 43-70)\<close>

text \<open>
  Both components contain the same loop. They differ in the container and in the
  scattered piece size only, which are the parameters \<open>W\<close>, \<open>H\<close> and \<open>S\<close> here:
  800 by 400 with pieces of 300 in ScatteredPieces, 800 by 600 with pieces of 150 in
  ReconstructionAnimation.
\<close>

definition padding :: real where
  "padding = 5"

definition maxAttempts :: nat where
  "maxAttempts = 1000"

text \<open>The callback of \<^verbatim>\<open>scatteredPositions.some(...)\<close>.\<close>

definition overlapping :: "real \<Rightarrow> real position \<Rightarrow> real position \<Rightarrow> bool" where
  "overlapping S position pos =
     (let dx = \<bar>pos_left pos - pos_left position\<bar>;
          dy = \<bar>pos_top pos - pos_top position\<bar>
      in dx < S + padding \<and> dy < S + padding)"

text \<open>
  The \<^verbatim>\<open>do { ... } while (overlaps && attempts < maxAttempts)\<close> loop for one piece.
  \<open>k\<close> is the number of random values consumed so far (\<open>top\<close> is drawn before
  \<open>left\<close>), \<open>attempts\<close> the loop counter. The result is the accepted position, the
  new count of consumed random values and the final value of \<open>attempts\<close>.
\<close>

function sampleLoop ::
  "(nat \<Rightarrow> real) \<Rightarrow> real \<Rightarrow> real \<Rightarrow> real \<Rightarrow> real position list \<Rightarrow> nat \<Rightarrow> nat
     \<Rightarrow> real position \<times> nat \<times> nat" where
  "sampleLoop rnd W H S scatteredPositions k attempts =
     (let position = \<lparr>pos_top = rnd k * (H - S), pos_left = rnd (Suc k) * (W - S)\<rparr>;
          overlaps = list_ex (overlapping S position) scatteredPositions;
          attempts' = Suc attempts
      in if overlaps \<and> attempts' < maxAttempts
         then sampleLoop rnd W H S scatteredPositions (k + 2) attempts'
         else (position, k + 2, attempts'))"
  by pat_completeness auto
termination
  by (relation "measure (\<lambda>(rnd, W, H, S, scatteredPositions, k, attempts). maxAttempts - attempts)")
     auto

declare sampleLoop.simps [simp del]

text \<open>\<^verbatim>\<open>for (let i = 0; i < pieces.length; i++)\<close>, with the push at the end of the body.\<close>

fun scatterLoop ::
  "(nat \<Rightarrow> real) \<Rightarrow> real \<Rightarrow> real \<Rightarrow> real \<Rightarrow> 'a list \<Rightarrow> nat \<Rightarrow> real position list
     \<Rightarrow> real position list" where
  "scatterLoop rnd W H S [] k scatteredPositions = scatteredPositions"
| "scatterLoop rnd W H S (p # ps) k scatteredPositions =
     (case sampleLoop rnd W H S scatteredPositions k 0 of
        (position, k', attempts) \<Rightarrow>
          scatterLoop rnd W H S ps k' (scatteredPositions @ [position]))"

definition scatter :: "(nat \<Rightarrow> real) \<Rightarrow> real \<Rightarrow> real \<Rightarrow> real \<Rightarrow> 'a list \<Rightarrow> real position list" where
  "scatter rnd W H S pieces = scatterLoop rnd W H S pieces 0 []"

definition scatter_ScatteredPieces :: "(nat \<Rightarrow> real) \<Rightarrow> 'a list \<Rightarrow> real position list" where
  "scatter_ScatteredPieces rnd pieces = scatter rnd 800 400 300 pieces"

definition scatter_ReconstructionAnimation :: "(nat \<Rightarrow> real) \<Rightarrow> 'a list \<Rightarrow> real position list" where
  "scatter_ReconstructionAnimation rnd pieces = scatter rnd 800 600 150 pieces"

text \<open>
  The value of \<open>attempts\<close> at the end of each piece's loop, in piece order. The source
  discards it; it is recorded here to state how many iterations each loop made.
\<close>

fun scatterAttempts ::
  "(nat \<Rightarrow> real) \<Rightarrow> real \<Rightarrow> real \<Rightarrow> real \<Rightarrow> 'a list \<Rightarrow> nat \<Rightarrow> real position list \<Rightarrow> nat list" where
  "scatterAttempts rnd W H S [] k scatteredPositions = []"
| "scatterAttempts rnd W H S (p # ps) k scatteredPositions =
     (case sampleLoop rnd W H S scatteredPositions k 0 of
        (position, k', attempts) \<Rightarrow>
          attempts # scatterAttempts rnd W H S ps k' (scatteredPositions @ [position]))"

text \<open>
  Pairwise separation of a layout: no position overlaps a later one. \<open>overlapping\<close> is
  symmetric, so this is the test \<open>|dx| \<ge> S + P\<close> or \<open>|dy| \<ge> S + P\<close> for every pair.
\<close>

fun separated :: "real \<Rightarrow> real position list \<Rightarrow> bool" where
  "separated S [] = True"
| "separated S (p # ps) = (\<not> list_ex (overlapping S p) ps \<and> separated S ps)"

text \<open>Every position lies in the sampling range \<open>[0, H - S] \<times> [0, W - S]\<close>.\<close>

definition in_region :: "real \<Rightarrow> real \<Rightarrow> real \<Rightarrow> real position list \<Rightarrow> bool" where
  "in_region W H S ps =
     list_all (\<lambda>p. 0 \<le> pos_top p \<and> pos_top p \<le> H - S \<and> 0 \<le> pos_left p \<and> pos_left p \<le> W - S) ps"

subsection \<open>Coordinate transforms\<close>

text \<open>
  The containers: 800 by 600 in ReconstructionAnimation and in the overlay of App,
  800 by 400 in ScatteredPieces.
\<close>

definition containerWidth :: real where
  "containerWidth = 800"

definition containerHeight :: real where
  "containerHeight = 600"

definition containerHeight_ScatteredPieces :: real where
  "containerHeight_ScatteredPieces = 400"

text \<open>\<^verbatim>\<open>interface PieceCoordinate { piece_index; top; left }\<close>.\<close>

record pieceCoordinate =
  coord_piece_index :: int
  coord_top :: real
  coord_left :: real

text \<open>
  ReconstructionAnimation, \<^verbatim>\<open>startAnimation\<close>, lines 83-93: the scale and the final
  positions. The source size is \<open>gridSize * pieceDimensions\<close>.
\<close>

definition scale_ReconstructionAnimation :: "real \<Rightarrow> dims \<Rightarrow> jsnum" where
  "scale_ReconstructionAnimation gridSize pieceDimensions =
     (let scaleX = Num containerWidth / (Num gridSize * Num (width pieceDimensions));
          scaleY = Num containerHeight / (Num gridSize * Num (height pieceDimensions))
      in jmin (jmin scaleX scaleY) (Num 1))"

definition finalPositions :: "real \<Rightarrow> dims \<Rightarrow> pieceCoordinate list \<Rightarrow> jsnum position list" where
  "finalPositions gridSize pieceDimensions pieceCoordinates =
     (let scale = scale_ReconstructionAnimation gridSize pieceDimensions
      in map (\<lambda>coord.
           \<lparr>pos_top = (Num (coord_top coord) * scale)
                + (Num containerHeight - Num gridSize * Num (height pieceDimensions) * scale) / Num 2,
            pos_left = (Num (coord_left coord) * scale)
                + (Num containerWidth - Num gridSize * Num (width pieceDimensions) * scale) / Num 2\<rparr>)
         pieceCoordinates)"

text \<open>
  ScatteredPieces, the rebuild branch, lines 64-70: original positions as fractions
  of the original image size, times the container size.
\<close>

definition rebuiltPositions :: "real position list \<Rightarrow> dims \<Rightarrow> jsnum position list" where
  "rebuiltPositions originalPositions originalImageSize =
     map (\<lambda>pos.
        \<lparr>pos_top = (Num (pos_top pos) / Num (height originalImageSize))
             * Num containerHeight_ScatteredPieces,
         pos_left = (Num (pos_left pos) / Num (width originalImageSize))
             * Num containerWidth\<rparr>)
       originalPositions"

text \<open>
  App, the overlay, lines 1537-1548 and 1557-1558. \<^verbatim>\<open>canvas_size?.width || 800\<close>
  replaces a zero width by 800. The scaled point is shifted by the centre of the box.
\<close>

definition scale_overlay :: "dims \<Rightarrow> jsnum" where
  "scale_overlay canvas =
     (let canvasWidth = (if width canvas = 0 then 800 else width canvas);
          canvasHeight = (if height canvas = 0 then 600 else height canvas);
          scaleX = Num 800 / Num canvasWidth;
          scaleY = Num 600 / Num canvasHeight
      in jmin (jmin scaleX scaleY) (Num 1))"

definition overlay_point :: "dims \<Rightarrow> real \<times> real \<Rightarrow> jsnum position" where
  "overlay_point canvas xy =
     (let scale = scale_overlay canvas;
          scaledX = Num (fst xy) * scale;
          scaledY = Num (snd xy) * scale
      in \<lparr>pos_top = scaledY + Num 300, pos_left = scaledX + Num 400\<rparr>)"

text \<open>
  Two sequences of random values used in the examples below, and the rounding that
  changes nothing (the products of the examples are doubles).
\<close>

definition exact :: "real \<Rightarrow> real" where
  "exact x = x"

definition constant_rnd :: "real \<Rightarrow> nat \<Rightarrow> real" where
  "constant_rnd c n = c"

definition spread_rnd :: "nat \<Rightarrow> real" where
  "spread_rnd n = (if n = 3 then 9 / 10 else 0)"

subsection \<open>Animation frames: progress and easing\<close>

text \<open>
  \<^verbatim>\<open>Math.min(elapsed / duration, 1)\<close> and \<^verbatim>\<open>1 - Math.pow(1 - progress, 3)\<close>, as
  both \<^verbatim>\<open>animate\<close> callbacks compute them; the duration is 2000 ms in both.
\<close>

definition animationDuration :: real where
  "animationDuration = 2000"

definition progress_of :: "real \<Rightarrow> real \<Rightarrow> real" where
  "progress_of elapsed duration = min (elapsed / duration) 1"

definition easeOutCubic_of :: "real \<Rightarrow> real" where
  "easeOutCubic_of progress = 1 - (1 - progress) ^ 3"

subsection \<open>ReconstructionAnimation: the animation run (lines 40-142)\<close>

text \<open>
  The state hooks \<open>positions\<close>, \<open>isAnimating\<close> and \<open>animationProgress\<close>. Positions
  are \<open>jsnum\<close> positions, because the final positions come out of the transform above;
  \<open>finite_position\<close> embeds a position of finite numbers.
\<close>

definition finite_position :: "real position \<Rightarrow> jsnum position" where
  "finite_position p = \<lparr>pos_top = Num (pos_top p), pos_left = Num (pos_left p)\<rparr>"

record ra_state =
  ra_positions :: "jsnum position list"
  ra_isAnimating :: bool
  ra_animationProgress :: real

text \<open>
  What one call of \<^verbatim>\<open>startAnimation\<close> leaves in the closure of its \<^verbatim>\<open>animate\<close>
  callback: the start time, the \<open>positions\<close> of the render in which the function was
  created (the scattered positions) and the final positions.
\<close>

record ra_run =
  ra_startTime :: real
  ra_start :: "jsnum position list"
  ra_final :: "jsnum position list"

text \<open>
  \<^verbatim>\<open>animate\<close>; \<open>now\<close> is the value of \<^verbatim>\<open>Date.now()\<close>. The boolean of the result
  tells whether the callback requested another frame. A piece without a final position
  keeps its start position. The callback has no test of any kind before it writes.
\<close>

definition animate_ReconstructionAnimation :: "ra_run \<Rightarrow> real \<Rightarrow> ra_state \<Rightarrow> ra_state \<times> bool" where
  "animate_ReconstructionAnimation r now s =
     (let elapsed = now - ra_startTime r;
          progress = progress_of elapsed animationDuration;
          easeProgress = easeOutCubic_of progress;
          newPositions = map (\<lambda>(i, startPos).
              if i < length (ra_final r)
              then (let endPos = ra_final r ! i
                    in \<lparr>pos_top = pos_top startPos
                            + (pos_top endPos - pos_top startPos) * Num easeProgress,
                        pos_left = pos_left startPos
                            + (pos_left endPos - pos_left startPos) * Num easeProgress\<rparr>)
              else startPos) (zip [0 ..< length (ra_start r)] (ra_start r));
          s1 = s\<lparr>ra_positions := newPositions, ra_animationProgress := easeProgress\<rparr>
      in if progress < 1 then (s1, True) else (s1\<lparr>ra_isAnimating := False\<rparr>, False))"

text \<open>\<^verbatim>\<open>startAnimation\<close> (lines 76-129); the result holds the new state and the run.\<close>

definition startAnimation_ReconstructionAnimation ::
  "real \<Rightarrow> real \<Rightarrow> dims \<Rightarrow> pieceCoordinate list \<Rightarrow> ra_state \<Rightarrow> ra_state \<times> ra_run option" where
  "startAnimation_ReconstructionAnimation now gridSize pieceDimensions pieceCoordinates s =
     (if pieceCoordinates = [] then (s, None)
      else
        let s1 = s\<lparr>ra_isAnimating := True, ra_animationProgress := 0\<rparr>;
            finalPositions' = finalPositions gridSize pieceDimensions pieceCoordinates
        in (s1, Some \<lparr>ra_startTime = now, ra_start = ra_positions s,
                       ra_final = finalPositions'\<rparr>))"

text \<open>
  \<^verbatim>\<open>resetAnimation\<close> (lines 131-142): the immediate writes, and the callback of its
  \<^verbatim>\<open>setTimeout\<close>, which gives every element of the \<open>positions\<close> it closed over a new
  random position (the scattered piece size of this component is 150).
\<close>

fun randomPositions :: "(nat \<Rightarrow> real) \<Rightarrow> nat \<Rightarrow> nat \<Rightarrow> jsnum position list" where
  "randomPositions rnd k 0 = []"
| "randomPositions rnd k (Suc n) =
     \<lparr>pos_top = Num (rnd k * (containerHeight - 150)),
      pos_left = Num (rnd (Suc k) * (containerWidth - 150))\<rparr>
       # randomPositions rnd (k + 2) n"

definition resetAnimation :: "ra_state \<Rightarrow> ra_state" where
  "resetAnimation s = s\<lparr>ra_isAnimating := False, ra_animationProgress := 0, ra_positions := []\<rparr>"

definition resetAnimation_timeout ::
  "(nat \<Rightarrow> real) \<Rightarrow> jsnum position list \<Rightarrow> ra_state \<Rightarrow> ra_state" where
  "resetAnimation_timeout rnd positions s =
     s\<lparr>ra_positions := randomPositions rnd 0 (length positions)\<rparr>"

text \<open>
  The effect on \<open>[isAnimating, pieces]\<close> (lines 40-74): it runs after a render in which
  \<open>isAnimating\<close> changed, also after the \<^verbatim>\<open>setIsAnimating(false)\<close> of the last frame,
  and scatters the pieces anew when no animation is running.
\<close>

definition scatterEffect :: "(nat \<Rightarrow> real) \<Rightarrow> 'a list \<Rightarrow> ra_state \<Rightarrow> ra_state" where
  "scatterEffect rnd pcs s =
     (if \<not> ra_isAnimating s
      then s\<lparr>ra_positions := map finite_position (scatter_ReconstructionAnimation rnd pcs)\<rparr>
      else s)"

subsection \<open>App: state (lines 497-524)\<close>

record piece =
  piece_index :: int
  filename :: string
  final_position :: "real \<times> real"

text \<open>
  A piece after \<^verbatim>\<open>generateScatteredPositions\<close>:
  \<^verbatim>\<open>{ ...piece, scattered_position: [x, y], current_position: [x, y] }\<close>.
\<close>

record scattered_piece = piece +
  scattered_position :: "real \<times> real"
  current_position :: "real \<times> real"

record placement =
  canvas_size :: dims
  piece_size :: dims
  placement_pieces :: "piece list"

datatype phase = Scattered | Moving | Complete

text \<open>
  The messages passed to \<^verbatim>\<open>setError\<close>. \<open>CountMismatch expected got\<close> stands for
  \<^verbatim>\<open>Expected ${pieceCount} pieces, got ${data.pieces.length}. ...\<close>, \<open>ServiceError\<close> for
  the non-empty \<^verbatim>\<open>data.error\<close> of a response, the others for the fixed strings.
\<close>

datatype app_error =
    NoImageUploaded
  | NoZipUploaded
  | CountMismatch int nat
  | ServiceError string
  | ShatterFailed
  | LoadZipFailed
  | RebuildFailed
  | ConnectFailed

text \<open>
  The state hooks and refs of \<^verbatim>\<open>App\<close>. A state setter is modelled as an immediate
  write. Files and JSON values that the engine does not inspect are strings.
\<close>

record app_state =
  uploadedFile :: "string option"
  uploadedZipFile :: "string option"
  originalImage :: "string option"
  pieces :: "string list"
  shuffledPieces :: "string list"
  originalImageSize :: "dims option"
  shattered :: bool
  rebuiltUrl :: "string option"
  loading :: bool
  error :: "app_error option"
  shatterRuntime :: "real option"
  rebuildRuntime :: "real option"
  timingBreakdown :: "string option"
  rebuildTimingBreakdown :: "string option"
  placementData :: "placement option"
  isAnimating :: bool
  scatteredPieces :: "scattered_piece list"
  animationPhase :: phase
  animationRef :: "scattered_piece list"
  animationIdRef :: nat
  currentPlacementDataRef :: "placement option"
  currentPieceIndex :: nat
  pieceCount :: int
  showGame :: bool

subsection \<open>App: shatter and load (lines 585-660; App.tsx, lines 282-355)\<close>

text \<open>
  The outcome of \<^verbatim>\<open>await fetch(...)\<close> and \<^verbatim>\<open>await res.json()\<close>: either an exception,
  caught by the handler, or the parsed object. Absent fields are \<open>None\<close>.
\<close>

datatype 'a response = Rejected | Json 'a

record pieces_data =
  data_pieces :: "string list option"
  data_image_size :: "dims option"
  data_runtime :: "real option"
  data_timing_breakdown :: "string option"
  data_error :: "string option"

text \<open>\<^verbatim>\<open>data.error || fallback\<close>: an absent or empty string gives the fallback.\<close>

definition error_or :: "string option \<Rightarrow> app_error \<Rightarrow> app_error" where
  "error_or e fallback =
     (case e of None \<Rightarrow> fallback | Some msg \<Rightarrow> if msg = [] then fallback else ServiceError msg)"

definition handleShatter :: "pieces_data response \<Rightarrow> app_state \<Rightarrow> app_state" where
  "handleShatter res s =
     (case uploadedFile s of
        None \<Rightarrow> s\<lparr>error := Some NoImageUploaded\<rparr>
      | Some file \<Rightarrow>
          let s1 = s\<lparr>loading := True, showGame := True, error := None, rebuiltUrl := None,
                     shatterRuntime := None, timingBreakdown := None\<rparr>;
              s2 = (case res of
                      Rejected \<Rightarrow> s1\<lparr>error := Some ConnectFailed\<rparr>
                    | Json data \<Rightarrow>
                        (case data_pieces data of
                           Some ps \<Rightarrow>
                             if int (length ps) = pieceCount s
                             then s1\<lparr>pieces := ps, shuffledPieces := ps,
                                     originalImageSize := data_image_size data,
                                     shattered := True,
                                     shatterRuntime := data_runtime data,
                                     timingBreakdown := data_timing_breakdown data\<rparr>
                             else s1\<lparr>error := Some (CountMismatch (pieceCount s) (length ps))\<rparr>
                         | None \<Rightarrow> s1\<lparr>error := Some (error_or (data_error data) ShatterFailed)\<rparr>))
          in s2\<lparr>loading := False, showGame := False\<rparr>)"

definition handleLoadZipPieces :: "pieces_data response \<Rightarrow> app_state \<Rightarrow> app_state" where
  "handleLoadZipPieces res s =
     (case uploadedZipFile s of
        None \<Rightarrow> s\<lparr>error := Some NoZipUploaded\<rparr>
      | Some file \<Rightarrow>
          let s1 = s\<lparr>loading := True, showGame := True, error := None, rebuiltUrl := None,
                     rebuildRuntime := None, rebuildTimingBreakdown := None\<rparr>;
              s2 = (case res of
                      Rejected \<Rightarrow> s1\<lparr>error := Some ConnectFailed\<rparr>
                    | Json data \<Rightarrow>
                        (case data_pieces data of
                           Some ps \<Rightarrow>
                             if int (length ps) = pieceCount s
                             then s1\<lparr>pieces := ps, shuffledPieces := ps,
                                     shattered := True,
                                     rebuildRuntime := data_runtime data,
                                     rebuildTimingBreakdown := data_timing_breakdown data\<rparr>
                             else s1\<lparr>error := Some (CountMismatch (pieceCount s) (length ps))\<rparr>
                         | None \<Rightarrow> s1\<lparr>error := Some (error_or (data_error data) LoadZipFailed)\<rparr>))
          in s2\<lparr>loading := False, showGame := False\<rparr>)"

subsection \<open>App: the animation run (lines 749-834)\<close>

text \<open>
  \<^verbatim>\<open>generateScatteredPositions\<close>: each piece draws \<open>x\<close>, then \<open>y\<close>, in a region that
  extends the canvas by a margin of 100 on every side.
\<close>

definition margin :: real where
  "margin = 100"

fun generateScatteredPositions_from ::
  "(nat \<Rightarrow> real) \<Rightarrow> nat \<Rightarrow> dims \<Rightarrow> piece list \<Rightarrow> scattered_piece list" where
  "generateScatteredPositions_from rnd k canvas [] = []"
| "generateScatteredPositions_from rnd k canvas (p # ps) =
     (let x = rnd k * (width canvas + margin * 2) - margin;
          y = rnd (Suc k) * (height canvas + margin * 2) - margin
      in piece.extend p (scattered_piece.fields (x, y) (x, y))
           # generateScatteredPositions_from rnd (Suc (Suc k)) canvas ps)"

definition generateScatteredPositions :: "(nat \<Rightarrow> real) \<Rightarrow> placement \<Rightarrow> scattered_piece list" where
  "generateScatteredPositions rnd pd =
     generateScatteredPositions_from rnd 0 (canvas_size pd) (placement_pieces pd)"

text \<open>
  What one call of \<^verbatim>\<open>startAnimation\<close> leaves in the closure of its \<^verbatim>\<open>animate\<close>
  callback: the generation of the run, its start time and its scattered pieces.
\<close>

record run =
  currentAnimationId :: nat
  startTime :: real
  scattered :: "scattered_piece list"

text \<open>
  The body of \<^verbatim>\<open>scattered.map(...)\<close> in \<^verbatim>\<open>animate\<close>. The final position is read
  into \<open>endX\<close>, \<open>endY\<close> and not used: every piece moves towards \<open>(0, 0)\<close>.
\<close>

definition move_piece :: "real \<Rightarrow> scattered_piece \<Rightarrow> scattered_piece" where
  "move_piece easeOutCubic p =
     (let (startX, startY) = scattered_position p;
          (endX, endY) = final_position p;
          currentX = startX + (0 - startX) * easeOutCubic;
          currentY = startY + (0 - startY) * easeOutCubic
      in p\<lparr>current_position := (currentX, currentY)\<rparr>)"

text \<open>
  \<^verbatim>\<open>animate(currentTime)\<close> for the run \<open>r\<close>. The boolean of the result tells whether
  the callback requested another frame. \<^verbatim>\<open>Math.floor(progress * 120) % 3 === 0\<close> holds
  exactly when 3 divides the floor, whatever its sign. The generation counter is a
  natural number; a JavaScript number counts exactly up to \<open>2^53\<close>.
\<close>

definition animate :: "run \<Rightarrow> real \<Rightarrow> app_state \<Rightarrow> app_state \<times> bool" where
  "animate r currentTime s =
     (if currentAnimationId r \<noteq> animationIdRef s then (s, False)
      else
        let elapsed = currentTime - startTime r;
            progress = progress_of elapsed animationDuration;
            easeOutCubic = easeOutCubic_of progress;
            updatedPieces = map (move_piece easeOutCubic) (scattered r);
            s1 = s\<lparr>animationRef := updatedPieces\<rparr>;
            s2 = (if \<lfloor>progress * 120\<rfloor> mod 3 = 0
                  then s1\<lparr>scatteredPieces := updatedPieces\<rparr> else s1)
        in if progress < 1 then (s2, True)
           else (s2\<lparr>animationPhase := Complete, scatteredPieces := updatedPieces\<rparr>, False))"

text \<open>
  \<^verbatim>\<open>startAnimation\<close>. \<open>pd\<close> is the value of \<open>placementData\<close> that the closure
  captured when it was created (the replay button passes the current state; the call
  scheduled by \<^verbatim>\<open>handleRebuild\<close> the state of the render in which the rebuild was
  requested); \<open>now\<close> is \<^verbatim>\<open>performance.now()\<close>. The result holds the new state and
  the run whose first frame was requested, if any.
\<close>

definition startAnimation ::
  "(nat \<Rightarrow> real) \<Rightarrow> real \<Rightarrow> placement option \<Rightarrow> app_state \<Rightarrow> app_state \<times> run option" where
  "startAnimation rnd now pd s =
     (case pd of
        None \<Rightarrow> (s, None)
      | Some placementData' \<Rightarrow>
          let s1 = s\<lparr>animationRef := [], animationIdRef := animationIdRef s + 1\<rparr>;
              currentAnimationId' = animationIdRef s1;
              s2 = s1\<lparr>currentPlacementDataRef := Some placementData'\<rparr>;
              s3 = s2\<lparr>isAnimating := True, animationPhase := Scattered\<rparr>;
              scattered' = generateScatteredPositions rnd placementData';
              s4 = s3\<lparr>scatteredPieces := scattered'\<rparr>;
              s5 = s4\<lparr>animationPhase := Moving\<rparr>
          in (s5, Some \<lparr>currentAnimationId = currentAnimationId', startTime = now,
                         scattered = scattered'\<rparr>))"

subsection \<open>App: resets (lines 528-583, 677-720, 836-848, 878-896)\<close>

definition closeAnimation :: "app_state \<Rightarrow> app_state" where
  "closeAnimation s =
     s\<lparr>isAnimating := False, scatteredPieces := [], animationPhase := Scattered,
       animationRef := [], currentPlacementDataRef := None\<rparr>"

definition resetState :: "app_state \<Rightarrow> app_state" where
  "resetState s =
     s\<lparr>shattered := False, shuffledPieces := [], error := None, loading := False,
       showGame := False, shatterRuntime := None, timingBreakdown := None,
       rebuiltUrl := None, rebuildRuntime := None, rebuildTimingBreakdown := None,
       placementData := None, isAnimating := False, scatteredPieces := [],
       animationPhase := Scattered, currentPieceIndex := 0,
       currentPlacementDataRef := None\<rparr>"

definition handleImageUpload :: "string \<Rightarrow> app_state \<Rightarrow> app_state" where
  "handleImageUpload file s =
     s\<lparr>uploadedFile := Some file, originalImage := Some file, uploadedZipFile := None,
       placementData := None, isAnimating := False, scatteredPieces := [],
       animationPhase := Scattered, animationRef := [], currentPlacementDataRef := None,
       shattered := False, shuffledPieces := [], error := None, rebuiltUrl := None,
       rebuildRuntime := None, rebuildTimingBreakdown := None, shatterRuntime := None,
       timingBreakdown := None, currentPieceIndex := 0\<rparr>"

definition handleZipUpload :: "string \<Rightarrow> app_state \<Rightarrow> app_state" where
  "handleZipUpload file s =
     resetState (s\<lparr>uploadedZipFile := Some file, uploadedFile := None, originalImage := None\<rparr>)"

definition handleReset :: "app_state \<Rightarrow> app_state" where
  "handleReset s =
     (resetState s)\<lparr>uploadedFile := None, uploadedZipFile := None, originalImage := None\<rparr>"

definition API_URL :: string where
  "API_URL = ''http://127.0.0.1:5001''"

record rebuild_data =
  rebuilt :: "string option"
  rebuild_runtime :: "real option"
  rebuild_timing_breakdown :: "string option"
  placement_data :: "placement option"
  rebuild_error :: "string option"

text \<open>
  \<^verbatim>\<open>handleRebuild\<close>; the boolean of the result tells whether \<^verbatim>\<open>startAnimation\<close>
  was scheduled with \<^verbatim>\<open>setTimeout\<close>. An empty \<open>rebuilt\<close> string is falsy.
\<close>

definition handleRebuild :: "rebuild_data response \<Rightarrow> app_state \<Rightarrow> app_state \<times> bool" where
  "handleRebuild res s =
     (let s1 = s\<lparr>loading := True, showGame := True, error := None, rebuiltUrl := None,
                 rebuildRuntime := None, rebuildTimingBreakdown := None\<rparr>;
          s2 = s1\<lparr>placementData := None, isAnimating := False, scatteredPieces := [],
                  animationPhase := Scattered, animationRef := [],
                  currentPlacementDataRef := None\<rparr>;
          (s3, scheduled) =
            (case res of
               Rejected \<Rightarrow> (s2\<lparr>error := Some ConnectFailed\<rparr>, False)
             | Json data \<Rightarrow>
                 (case rebuilt data of
                    Some url \<Rightarrow>
                      if url \<noteq> []
                      then (s2\<lparr>rebuiltUrl := Some (API_URL @ url),
                                rebuildRuntime := rebuild_runtime data,
                                rebuildTimingBreakdown := rebuild_timing_breakdown data,
                                placementData := placement_data data\<rparr>, True)
                      else (s2\<lparr>error := Some (error_or (rebuild_error data) RebuildFailed)\<rparr>, False)
                  | None \<Rightarrow>
                      (s2\<lparr>error := Some (error_or (rebuild_error data) RebuildFailed)\<rparr>, False)))
      in (s3\<lparr>loading := False, showGame := False\<rparr>, scheduled))"

text \<open>
  The cleanup of the effect on \<open>isAnimating\<close> and the effect on \<open>placementData\<close>.
\<close>

definition cleanup_isAnimating :: "app_state \<Rightarrow> app_state" where
  "cleanup_isAnimating s = s\<lparr>animationRef := [], currentPlacementDataRef := None\<rparr>"

definition effect_placementData :: "app_state \<Rightarrow> app_state" where
  "effect_placementData s =
     (if placementData s = None
      then s\<lparr>isAnimating := False, scatteredPieces := [], animationPhase := Scattered,
             animationRef := [], currentPlacementDataRef := None\<rparr>
      else s)"

subsection \<open>App: interleavings\<close>

text \<open>
  What can happen to the engine between two frames, in any order: a start, a frame
  callback of any run at any time, a close, a reset, an upload, a rebuild, the effects.
\<close>

datatype event =
    Start "nat \<Rightarrow> real" real "placement option"
  | Frame run real
  | Close
  | Reset
  | ResetAll
  | ImageUpload string
  | ZipUpload string
  | Rebuild "rebuild_data response"
  | Cleanup
  | PlacementEffect

fun step :: "event \<Rightarrow> app_state \<Rightarrow> app_state" where
  "step (Start rnd now pd) s = fst (startAnimation rnd now pd s)"
| "step (Frame r currentTime) s = fst (animate r currentTime s)"
| "step Close s = closeAnimation s"
| "step Reset s = resetState s"
| "step ResetAll s = handleReset s"
| "step (ImageUpload file) s = handleImageUpload file s"
| "step (ZipUpload file) s = handleZipUpload file s"
| "step (Rebuild res) s = fst (handleRebuild res s)"
| "step Cleanup s = cleanup_isAnimating s"
| "step PlacementEffect s = effect_placementData s"

fun exec :: "event list \<Rightarrow> app_state \<Rightarrow> app_state" where
  "exec [] s = s"
| "exec (e # es) s = exec es (step e s)"

text \<open>A state and a placement used in the examples below.\<close>

definition example_placement :: placement where
  "example_placement =
     \<lparr>canvas_size = \<lparr>width = 800, height = 600\<rparr>,
      piece_size = \<lparr>width = 100, height = 100\<rparr>,
      placement_pieces = [\<lparr>piece_index = 0, filename = ''piece_0.png'', final_position = (200, 300)\<rparr>]\<rparr>"

definition initial_state :: app_state where
  "initial_state =
     \<lparr>uploadedFile = None, uploadedZipFile = None, originalImage = None, pieces = [],
      shuffledPieces = [], originalImageSize = None, shattered = False, rebuiltUrl = None,
      loading = False, error = None, shatterRuntime = None, rebuildRuntime = None,
      timingBreakdown = None, rebuildTimingBreakdown = None, placementData = None,
      isAnimating = False, scatteredPieces = [], animationPhase = Scattered,
      animationRef = [], animationIdRef = 0, currentPlacementDataRef = None,
      currentPieceIndex = 0, pieceCount = 50, showGame = False\<rparr>"

text \<open>
  Two runs on the example placement: run A is started in the initial state; after a
  frame of A and a close, run B is started.
\<close>

definition state_A :: app_state where
  "state_A = fst (startAnimation (constant_rnd (1 / 4)) 0 (Some example_placement) initial_state)"

definition run_A :: run where
  "run_A = the (snd (startAnimation (constant_rnd (1 / 4)) 0 (Some example_placement) initial_state))"

definition state_B :: app_state where
  "state_B = fst (startAnimation (constant_rnd (3 / 4)) 1000 (Some example_placement)
                    (exec [Frame run_A 500, Close] state_A))"

definition run_B :: run where
  "run_B = the (snd (startAnimation (constant_rnd (3 / 4)) 1000 (Some example_placement)
                    (exec [Frame run_A 500, Close] state_A)))"

text \<open>
  A state that holds a piece set from an earlier shatter, and a response with two
  pieces where 50 were requested.
\<close>

definition loaded_state :: app_state where
  "loaded_state =
     initial_state\<lparr>uploadedFile := Some ''image.png'', pieces := [''old_0.png''],
                   shuffledPieces := [''old_0.png''], shattered := True\<rparr>"

definition short_response :: pieces_data where
  "short_response =
     \<lparr>data_pieces = Some [''piece_0.png'', ''piece_1.png''], data_image_size = None,
      data_runtime = None, data_timing_breakdown = None, data_error = None\<rparr>"

text \<open>
  Two runs of ReconstructionAnimation: run A is started at time 0 on one scattered
  piece; then the animation is reset, the timeout of the reset gives the piece a new
  random position, and run B is started at time 500.
\<close>

definition ra_initial :: ra_state where
  "ra_initial =
     \<lparr>ra_positions = [\<lparr>pos_top = Num 10, pos_left = Num 20\<rparr>], ra_isAnimating = False,
      ra_animationProgress = 0\<rparr>"

definition ra_state_A :: ra_state where
  "ra_state_A = fst (startAnimation_ReconstructionAnimation 0 4 \<lparr>width = 200, height = 150\<rparr>
     [\<lparr>coord_piece_index = 0, coord_top = 300, coord_left = 400\<rparr>] ra_initial)"

definition ra_run_A :: ra_run where
  "ra_run_A = the (snd (startAnimation_ReconstructionAnimation 0 4 \<lparr>width = 200, height = 150\<rparr>
     [\<lparr>coord_piece_index = 0, coord_top = 300, coord_left = 400\<rparr>] ra_initial))"

definition ra_state_reset :: ra_state where
  "ra_state_reset =
     resetAnimation_timeout (constant_rnd (1 / 2)) (ra_positions ra_state_A)
       (resetAnimation ra_state_A)"

definition ra_state_B :: ra_state where
  "ra_state_B = fst (startAnimation_ReconstructionAnimation 500 4 \<lparr>width = 200, height = 150\<rparr>
     [\<lparr>coord_piece_index = 0, coord_top = 300, coord_left = 400\<rparr>] ra_state_reset)"

definition ra_run_B :: ra_run where
  "ra_run_B = the (snd (startAnimation_ReconstructionAnimation 500 4 \<lparr>width = 200, height = 150\<rparr>
     [\<lparr>coord_piece_index = 0, coord_top = 300, coord_left = 400\<rparr>] ra_state_reset))"

section \<open>Properties\<close>

subsection \<open>Shuffle\<close>

lemma random_index_le:
  assumes "0 \<le> fl (r * (real i + 1))" and "fl (r * (real i + 1)) < real i + 1"
  shows "random_index fl r i \<le> i"
proof -
  have "\<lfloor>fl (r * (real i + 1))\<rfloor> < int i + 1"
    using assms(2) floor_less_iff [of "fl (r * (real i + 1))" "int i + 1"] by simp
  then show ?thesis
    unfolding random_index_def by linarith
qed

lemma random_index_iff:
  assumes "0 \<le> fl (r * (real i + 1))"
  shows "random_index fl r i = j \<longleftrightarrow>
           real j \<le> fl (r * (real i + 1)) \<and> fl (r * (real i + 1)) < real j + 1"
proof -
  have fl: "0 \<le> \<lfloor>fl (r * (real i + 1))\<rfloor>"
    using assms by simp
  have "random_index fl r i = j \<longleftrightarrow> \<lfloor>fl (r * (real i + 1))\<rfloor> = int j"
    unfolding random_index_def using fl by linarith
  also have "\<dots> \<longleftrightarrow> real j \<le> fl (r * (real i + 1)) \<and> fl (r * (real i + 1)) < real j + 1"
    by (simp add: floor_eq_iff)
  finally show ?thesis .
qed

lemma swap_nth:
  assumes "i < length xs" and "j < length xs"
  shows "swap i j xs ! i = xs ! j" and "swap i j xs ! j = xs ! i"
    and "m \<noteq> i \<Longrightarrow> m \<noteq> j \<Longrightarrow> swap i j xs ! m = xs ! m"
  using assms by (auto simp: swap_def nth_list_update)

lemma mset_swap_arr:
  "i < length arr \<Longrightarrow> j < length arr \<Longrightarrow> mset (swap i j arr) = mset arr"
  unfolding swap_def by (simp add: mset_swap)

lemma length_swap_arr [simp]: "length (swap i j arr) = length arr"
  by (simp add: swap_def)

lemma length_shuffleLoop [simp]: "length (shuffleLoop fl rnd k i arr) = length arr"
  by (induction i arbitrary: k arr) (simp_all add: Let_def)

lemma mset_shuffleLoop:
  assumes "\<forall>k i. i < length arr \<longrightarrow> random_index fl (rnd k) i \<le> i" and "i < length arr"
  shows "mset (shuffleLoop fl rnd k i arr) = mset arr"
  using assms
proof (induction i arbitrary: k arr)
  case 0
  then show ?case by simp
next
  case (Suc n)
  let ?j = "random_index fl (rnd k) (Suc n)"
  have j: "?j < length arr"
    using Suc.prems by (meson le_less_trans)
  have "mset (shuffleLoop fl rnd (Suc k) n (swap (Suc n) ?j arr)) = mset (swap (Suc n) ?j arr)"
    using Suc.prems by (intro Suc.IH) simp_all
  then show ?case
    using Suc.prems(2) j by (simp add: Let_def mset_swap_arr)
qed

lemma shuffleLoop_above:
  assumes "\<forall>k i. i < length arr \<longrightarrow> random_index fl (rnd k) i \<le> i"
      and "i < m" and "m < length arr"
  shows "shuffleLoop fl rnd k i arr ! m = arr ! m"
  using assms
proof (induction i arbitrary: k arr)
  case 0
  then show ?case by simp
next
  case (Suc n)
  let ?j = "random_index fl (rnd k) (Suc n)"
  have j: "?j \<le> Suc n"
    using Suc.prems by simp
  have "shuffleLoop fl rnd (Suc k) n (swap (Suc n) ?j arr) ! m = swap (Suc n) ?j arr ! m"
    using Suc.prems by (intro Suc.IH) simp_all
  also have "\<dots> = arr ! m"
  proof (rule swap_nth(3))
    show "Suc n < length arr" using Suc.prems by linarith
    show "?j < length arr" using Suc.prems j by linarith
    show "m \<noteq> Suc n" using Suc.prems by linarith
    show "m \<noteq> ?j" using Suc.prems j by linarith
  qed
  finally show ?case
    by (simp add: Let_def)
qed

lemma shuffleLoop_last:
  assumes "\<forall>k i. i < length arr \<longrightarrow> random_index fl (rnd k) i \<le> i" and "Suc n < length arr"
  shows "shuffleLoop fl rnd k (Suc n) arr ! Suc n = arr ! random_index fl (rnd k) (Suc n)"
proof -
  let ?j = "random_index fl (rnd k) (Suc n)"
  have j: "?j \<le> Suc n"
    using assms by simp
  have "shuffleLoop fl rnd (Suc k) n (swap (Suc n) ?j arr) ! Suc n = swap (Suc n) ?j arr ! Suc n"
    using assms by (intro shuffleLoop_above) simp_all
  also have "\<dots> = arr ! ?j"
  proof (rule swap_nth(1))
    show "Suc n < length arr" using assms by linarith
    show "?j < length arr" using assms j by linarith
  qed
  finally show ?thesis
    by (simp add: Let_def)
qed

lemma shuffleLoop_foldl:
  "shuffleLoop fl rnd k i arr
     = foldl (\<lambda>a d. swap (i - d) (random_index fl (rnd (k + d)) (i - d)) a) arr [0 ..< i]"
proof (induction i arbitrary: k arr)
  case 0
  then show ?case by simp
next
  case (Suc n)
  have "foldl (\<lambda>a d. swap (Suc n - d) (random_index fl (rnd (k + d)) (Suc n - d)) a) arr [0 ..< Suc n]
      = foldl (\<lambda>a d. swap (Suc n - d) (random_index fl (rnd (k + d)) (Suc n - d)) a)
          (swap (Suc n) (random_index fl (rnd k) (Suc n)) arr) (map Suc [0 ..< n])"
    by (simp add: upt_conv_Cons map_Suc_upt del: upt_Suc)
  also have "\<dots> = foldl (\<lambda>a d. swap (n - d) (random_index fl (rnd (Suc k + d)) (n - d)) a)
          (swap (Suc n) (random_index fl (rnd k) (Suc n)) arr) [0 ..< n]"
    by (simp add: foldl_map)
  finally show ?case
    by (simp add: Suc.IH Let_def)
qed

lemma distinct_swap:
  assumes "distinct arr" and "i < length arr" and "j < length arr"
  shows "distinct (swap i j arr)"
proof -
  have "mset (swap i j arr) = mset arr"
    using assms(2,3) by (rule mset_swap_arr)
  then show ?thesis
    using assms(1) by (metis distinct_count_atmost_1 set_mset_mset)
qed

lemma shuffleLoop_choices:
  assumes "\<forall>k i. i < length arr \<longrightarrow> random_index fl (rnd k) i \<le> i"
      and "\<forall>k i. i < length arr \<longrightarrow> random_index fl' (rnd' k) i \<le> i"
      and "distinct arr" and "i < length arr"
      and "shuffleLoop fl rnd k i arr = shuffleLoop fl' rnd' k' i arr"
      and "d < i"
  shows "random_index fl (rnd (k + d)) (i - d) = random_index fl' (rnd' (k' + d)) (i - d)"
  using assms
proof (induction i arbitrary: k k' arr d)
  case 0
  then show ?case by simp
next
  case (Suc n)
  let ?j = "random_index fl (rnd k) (Suc n)"
  let ?j' = "random_index fl' (rnd' k') (Suc n)"
  have j: "?j \<le> Suc n" "?j' \<le> Suc n"
    using Suc.prems(1,2,4) by simp_all
  have "arr ! ?j = shuffleLoop fl rnd k (Suc n) arr ! Suc n"
    using Suc.prems(1,4) by (simp only: shuffleLoop_last)
  also have "\<dots> = shuffleLoop fl' rnd' k' (Suc n) arr ! Suc n"
    by (simp only: Suc.prems(5))
  also have "\<dots> = arr ! ?j'"
    using Suc.prems(2,4) by (simp only: shuffleLoop_last)
  finally have same: "?j = ?j'"
    using Suc.prems(3,4) j by (simp add: nth_eq_iff_index_eq)
  show ?case
  proof (cases d)
    case 0
    then show ?thesis using same by simp
  next
    case (Suc e)
    let ?arr1 = "swap (Suc n) ?j arr"
    have d1: "distinct ?arr1"
      using Suc.prems(3,4) j by (intro distinct_swap) simp_all
    have eq: "shuffleLoop fl rnd (Suc k) n ?arr1 = shuffleLoop fl' rnd' (Suc k') n ?arr1"
      using Suc.prems(5) same by (simp add: Let_def)
    have "random_index fl (rnd (Suc k + e)) (n - e) = random_index fl' (rnd' (Suc k' + e)) (n - e)"
      using Suc.prems(1,2,4,6) \<open>d = Suc e\<close> d1 eq
      by (intro Suc.IH [of ?arr1 "Suc k" "Suc k'" e]) simp_all
    then show ?thesis
      using \<open>d = Suc e\<close> by simp
  qed
qed

lemma shuffleLoop_heap_eq:
  "arr < length h \<Longrightarrow>
     shuffleLoop_heap fl rnd k i arr h = h[arr := shuffleLoop fl rnd k i (h ! arr)]"
  by (induction i arbitrary: k h) (auto simp: Let_def)

lemma choices_in_range:
  assumes "\<forall>k i. i < n \<longrightarrow>
             0 \<le> fl (rnd k * (real i + 1)) \<and> fl (rnd k * (real i + 1)) < real i + 1"
  shows "\<forall>k i. i < n \<longrightarrow> random_index fl (rnd k) i \<le> i"
  using assms by (simp add: random_index_le)

lemma mset_shuffleArray:
  assumes "\<forall>k i. i < length array \<longrightarrow> random_index fl (rnd k) i \<le> i"
  shows "mset (shuffleArray fl rnd array) = mset array"
proof (cases array)
  case Nil
  then show ?thesis by (simp add: shuffleArray_def)
next
  case (Cons x xs)
  then have "length array - 1 < length array" by simp
  then show ?thesis
    unfolding shuffleArray_def Let_def by (rule mset_shuffleLoop [OF assms])
qed

text \<open>
  Claim C7. For every input list, \<open>shuffleArray\<close> returns a permutation of it: the same
  multiset of elements and the same length, whenever every rounded product lies in
  \<open>[0, i + 1)\<close>. The result is tied to the random choices: it is the input after the
  swaps of position \<open>i\<close> with position \<open>random_index fl (rnd k) i\<close>, for \<open>i\<close> from the
  last index down to 1 and \<open>k\<close> counting the iterations; the chosen index is at most
  \<open>i\<close>, and it is \<open>j\<close> exactly when the rounded product of the random value and
  \<open>i + 1\<close> lies in \<open>[j, j + 1)\<close>; a swap exchanges exactly the two positions; the last position of the result
  holds the element at the first chosen index; and on a list without duplicates the
  result determines every chosen index, so different sequences of choices give
  different permutations. Shuffling a shuffled list again still gives a permutation of
  the original.
\<close>

theorem shuffleArray_permutation:
  assumes "\<forall>k i. i < length array \<longrightarrow>
             0 \<le> fl (rnd k * (real i + 1)) \<and> fl (rnd k * (real i + 1)) < real i + 1"
      and "\<forall>k i. i < length array \<longrightarrow>
             0 \<le> fl' (rnd' k * (real i + 1)) \<and> fl' (rnd' k * (real i + 1)) < real i + 1"
  shows "mset (shuffleArray fl rnd array) = mset array
       \<and> length (shuffleArray fl rnd array) = length array
       \<and> (\<forall>k i. i < length array \<longrightarrow> random_index fl (rnd k) i \<le> i)
       \<and> (\<forall>k i j. i < length array \<longrightarrow>
             (random_index fl (rnd k) i = j \<longleftrightarrow>
                real j \<le> fl (rnd k * (real i + 1)) \<and> fl (rnd k * (real i + 1)) < real j + 1))
       \<and> shuffleArray fl rnd array
           = foldl (\<lambda>arr k. swap (length array - 1 - k)
                               (random_index fl (rnd k) (length array - 1 - k)) arr)
               array [0 ..< length array - 1]
       \<and> (\<forall>i j. i < length array \<and> j < length array \<longrightarrow>
             swap i j array ! i = array ! j \<and> swap i j array ! j = array ! i
           \<and> (\<forall>m. m \<noteq> i \<and> m \<noteq> j \<longrightarrow> swap i j array ! m = array ! m)
           \<and> length (swap i j array) = length array)
       \<and> (2 \<le> length array \<longrightarrow>
             shuffleArray fl rnd array ! (length array - 1)
               = array ! random_index fl (rnd 0) (length array - 1))
       \<and> (distinct array \<and> shuffleArray fl rnd array = shuffleArray fl' rnd' array \<longrightarrow>
             (\<forall>k < length array - 1.
                random_index fl (rnd k) (length array - 1 - k)
                  = random_index fl' (rnd' k) (length array - 1 - k)))
       \<and> mset (shuffleArray fl' rnd' (shuffleArray fl rnd array)) = mset array"
proof -
  note c = choices_in_range [OF assms(1)]
  note c' = choices_in_range [OF assms(2)]
  have 1: "mset (shuffleArray fl rnd array) = mset array"
    by (rule mset_shuffleArray [OF c])
  have 2: "length (shuffleArray fl rnd array) = length array"
    by (simp add: shuffleArray_def)
  have 3: "\<forall>k i j. i < length array \<longrightarrow>
             (random_index fl (rnd k) i = j \<longleftrightarrow>
                real j \<le> fl (rnd k * (real i + 1)) \<and> fl (rnd k * (real i + 1)) < real j + 1)"
    using assms(1) by (simp add: random_index_iff)
  have 4: "shuffleArray fl rnd array
           = foldl (\<lambda>arr k. swap (length array - 1 - k)
                               (random_index fl (rnd k) (length array - 1 - k)) arr)
               array [0 ..< length array - 1]"
    unfolding shuffleArray_def Let_def shuffleLoop_foldl by simp
  have 5: "swap i j array ! i = array ! j \<and> swap i j array ! j = array ! i
           \<and> (\<forall>m. m \<noteq> i \<and> m \<noteq> j \<longrightarrow> swap i j array ! m = array ! m)
           \<and> length (swap i j array) = length array"
    if "i < length array \<and> j < length array" for i j
    using that by (simp add: swap_def nth_list_update)
  have 6: "shuffleArray fl rnd array ! (length array - 1)
               = array ! random_index fl (rnd 0) (length array - 1)"
    if "2 \<le> length array"
  proof -
    have "0 < length array - 1"
      using that by linarith
    then obtain n where n: "length array - 1 = Suc n"
      using gr0_implies_Suc by blast
    then have "Suc n < length array"
      by linarith
    from shuffleLoop_last [OF c this, of 0] show ?thesis
      unfolding shuffleArray_def Let_def n .
  qed
  have 7: "random_index fl (rnd k) (length array - 1 - k)
             = random_index fl' (rnd' k) (length array - 1 - k)"
    if "distinct array \<and> shuffleArray fl rnd array = shuffleArray fl' rnd' array"
      and "k < length array - 1" for k
  proof -
    have lt: "length array - 1 < length array"
      using that(2) by linarith
    from that(1) have d: "distinct array"
      and e: "shuffleLoop fl rnd 0 (length array - 1) array
            = shuffleLoop fl' rnd' 0 (length array - 1) array"
      by (simp_all add: shuffleArray_def)
    from shuffleLoop_choices [OF c c' d lt e that(2)] show ?thesis
      by simp
  qed
  have 8: "mset (shuffleArray fl' rnd' (shuffleArray fl rnd array)) = mset array"
  proof -
    have "\<forall>k i. i < length (shuffleArray fl rnd array) \<longrightarrow> random_index fl' (rnd' k) i \<le> i"
      using c' by (simp add: 2)
    from mset_shuffleArray [OF this] 1 show ?thesis
      by simp
  qed
  have q5: "\<forall>i j. i < length array \<and> j < length array \<longrightarrow>
             swap i j array ! i = array ! j \<and> swap i j array ! j = array ! i
           \<and> (\<forall>m. m \<noteq> i \<and> m \<noteq> j \<longrightarrow> swap i j array ! m = array ! m)
           \<and> length (swap i j array) = length array"
    using 5 by (intro allI impI)
  have q6: "2 \<le> length array \<longrightarrow>
             shuffleArray fl rnd array ! (length array - 1)
               = array ! random_index fl (rnd 0) (length array - 1)"
    using 6 by (intro impI)
  have q7: "distinct array \<and> shuffleArray fl rnd array = shuffleArray fl' rnd' array \<longrightarrow>
             (\<forall>k < length array - 1.
                random_index fl (rnd k) (length array - 1 - k)
                  = random_index fl' (rnd' k) (length array - 1 - k))"
    using 7 by (intro impI allI)
  show ?thesis
    by (intro conjI) (rule 1 2 c 3 4 q5 q6 q7 8)+
qed


theorem shuffleArray_permutation_witness:
  "shuffleArray exact (constant_rnd (1 / 2)) [1, 2, 3, 4, 5 :: nat] = [1, 4, 2, 5, 3]
   \<and> random_index exact (constant_rnd (1 / 2) 0) 4 = 2
   \<and> shuffleArray exact (constant_rnd (1 / 2)) [1, 2, 3, 4, 5 :: nat] ! 4 = [1, 2, 3, 4, 5] ! 2
   \<and> mset (shuffleArray exact (constant_rnd (1 / 2)) [1, 2, 3, 4, 5 :: nat]) = mset [1, 2, 3, 4, 5]
   \<and> mset (shuffleArray exact (constant_rnd (1 / 2))
             (shuffleArray exact (constant_rnd (1 / 2)) [1, 2, 3, 4, 5 :: nat]))
       = mset [1, 2, 3, 4, 5]"
proof -
  have h: "\<forall>k i. i < length [1, 2, 3, 4, 5 :: nat] \<longrightarrow>
      0 \<le> exact (constant_rnd (1 / 2) k * (real i + 1))
      \<and> exact (constant_rnd (1 / 2) k * (real i + 1)) < real i + 1"
    by (simp add: exact_def constant_rnd_def)
  have v: "shuffleArray exact (constant_rnd (1 / 2)) [1, 2, 3, 4, 5 :: nat] = [1, 4, 2, 5, 3]"
    by (simp add: shuffleArray_def random_index_def swap_def exact_def constant_rnd_def
        eval_nat_numeral)
  have j: "random_index exact (constant_rnd (1 / 2) 0) 4 = 2"
    by (simp add: random_index_def exact_def constant_rnd_def)
  note t = shuffleArray_permutation [OF h h]
  note m1 = t [THEN conjunct1]
  note m2 = t [THEN conjunct2, THEN conjunct2, THEN conjunct2, THEN conjunct2,
      THEN conjunct2, THEN conjunct2, THEN conjunct2, THEN conjunct2]
  have l: "shuffleArray exact (constant_rnd (1 / 2)) [1, 2, 3, 4, 5 :: nat] ! 4
      = [1, 2, 3, 4, 5] ! 2"
    unfolding v by simp
  show ?thesis
    by (intro conjI) (rule v j l m1 m2)+
qed

text \<open>
  Claim C10. \<open>shuffleArray\<close> never mutates its argument. On the store: for an argument
  at a valid address, the returned address is the next free one (so it is fresh and
  differs from the argument's), the store grows by exactly that one array, every array
  that was in the store before the call, the argument included, holds the same elements
  in the same order afterwards, and the new array holds the shuffled copy.
\<close>

theorem shuffleArray_heap_frame:
  assumes "array < length h"
      and "\<forall>k i. i < length (h ! array) \<longrightarrow>
             0 \<le> fl (rnd k * (real i + 1)) \<and> fl (rnd k * (real i + 1)) < real i + 1"
  shows "fst (shuffleArray_heap fl rnd array h) = length h
       \<and> fst (shuffleArray_heap fl rnd array h) \<noteq> array
       \<and> length (snd (shuffleArray_heap fl rnd array h)) = Suc (length h)
       \<and> take (length h) (snd (shuffleArray_heap fl rnd array h)) = h
       \<and> snd (shuffleArray_heap fl rnd array h) ! array = h ! array
       \<and> snd (shuffleArray_heap fl rnd array h) ! fst (shuffleArray_heap fl rnd array h)
           = shuffleArray fl rnd (h ! array)"
proof -
  let ?h1 = "h @ [h ! array]"
  have eq: "shuffleArray_heap fl rnd array h =
      (length h, ?h1[length h := shuffleLoop fl rnd 0 (length (h ! array) - 1) (h ! array)])"
    by (simp add: shuffleArray_heap_def Let_def shuffleLoop_heap_eq)
  show ?thesis
    using assms(1) by (simp add: eq shuffleArray_def Let_def nth_append)
qed

theorem shuffleArray_heap_frame_witness:
  "(1::nat) < length [[9], [1, 2, 3, 4, 5 :: nat]]
   \<and> fst (shuffleArray_heap exact (constant_rnd (1 / 2)) 1 [[9], [1, 2, 3, 4, 5 :: nat]]) = 2
   \<and> snd (shuffleArray_heap exact (constant_rnd (1 / 2)) 1 [[9], [1, 2, 3, 4, 5 :: nat]]) ! 1
       = [1, 2, 3, 4, 5]
   \<and> take 2 (snd (shuffleArray_heap exact (constant_rnd (1 / 2)) 1 [[9], [1, 2, 3, 4, 5 :: nat]]))
       = [[9], [1, 2, 3, 4, 5]]"
proof -
  have a: "(1::nat) < length [[9], [1, 2, 3, 4, 5 :: nat]]"
    by simp
  have h: "\<forall>k i. i < length ([[9], [1, 2, 3, 4, 5 :: nat]] ! 1) \<longrightarrow>
      0 \<le> exact (constant_rnd (1 / 2) k * (real i + 1))
      \<and> exact (constant_rnd (1 / 2) k * (real i + 1)) < real i + 1"
    by (simp add: exact_def constant_rnd_def)
  from shuffleArray_heap_frame [OF a h] a show ?thesis
    by (simp add: numeral_2_eq_2)
qed

subsection \<open>Scatter placement\<close>

lemma sampleLoop_attempts:
  "attempts < snd (snd (sampleLoop rnd W H S placed k attempts))
   \<and> snd (snd (sampleLoop rnd W H S placed k attempts)) \<le> max (Suc attempts) maxAttempts"
proof (induction rnd W H S placed k attempts rule: sampleLoop.induct)
  case (1 rnd W H S placed k attempts)
  let ?pos = "\<lparr>pos_top = rnd k * (H - S), pos_left = rnd (Suc k) * (W - S)\<rparr>"
  show ?case
  proof (cases "list_ex (overlapping S ?pos) placed \<and> Suc attempts < maxAttempts")
    case True
    from "1.IH" [OF refl refl refl True]
    have "Suc attempts < snd (snd (sampleLoop rnd W H S placed (k + 2) (Suc attempts)))
        \<and> snd (snd (sampleLoop rnd W H S placed (k + 2) (Suc attempts))) \<le> max (Suc (Suc attempts)) maxAttempts" .
    with True show ?thesis
      by (subst (1 2) sampleLoop.simps) (simp add: Let_def)
  next
    case False
    then show ?thesis
      by (subst (1 2) sampleLoop.simps) (auto simp: Let_def)
  qed
qed

lemma sampleLoop_early:
  "snd (snd (sampleLoop rnd W H S placed k attempts)) < maxAttempts \<Longrightarrow>
     \<not> list_ex (overlapping S (fst (sampleLoop rnd W H S placed k attempts))) placed"
proof (induction rnd W H S placed k attempts rule: sampleLoop.induct)
  case (1 rnd W H S placed k attempts)
  let ?pos = "\<lparr>pos_top = rnd k * (H - S), pos_left = rnd (Suc k) * (W - S)\<rparr>"
  show ?case
  proof (cases "list_ex (overlapping S ?pos) placed \<and> Suc attempts < maxAttempts")
    case True
    then have eq: "sampleLoop rnd W H S placed k attempts = sampleLoop rnd W H S placed (k + 2) (Suc attempts)"
      by (subst sampleLoop.simps) (simp add: Let_def)
    from "1.IH" [OF refl refl refl True] "1.prems" show ?thesis
      by (simp add: eq)
  next
    case False
    then have eq: "sampleLoop rnd W H S placed k attempts = (?pos, k + 2, Suc attempts)"
      by (subst sampleLoop.simps) (auto simp: Let_def)
    from False "1.prems" show ?thesis
      by (auto simp: eq)
  qed
qed

lemma sampleLoop_const:
  "fst (sampleLoop (\<lambda>n. c) W H S placed k attempts) = \<lparr>pos_top = c * (H - S), pos_left = c * (W - S)\<rparr>"
proof (induction "\<lambda>n::nat. c" W H S placed k attempts rule: sampleLoop.induct)
  case (1 W H S placed k attempts)
  let ?pos = "\<lparr>pos_top = c * (H - S), pos_left = c * (W - S)\<rparr>"
  show ?case
  proof (cases "list_ex (overlapping S ?pos) placed \<and> Suc attempts < maxAttempts")
    case True
    from "1.hyps" [OF refl refl refl True] True show ?thesis
      by (subst sampleLoop.simps) (simp add: Let_def)
  next
    case False
    then show ?thesis
      by (subst sampleLoop.simps) (auto simp: Let_def)
  qed
qed

lemma length_scatterLoop:
  "length (scatterLoop rnd W H S pcs k acc) = length acc + length pcs"
  by (induction pcs arbitrary: k acc) (auto split: prod.splits)

lemma overlapping_sym: "overlapping S p q = overlapping S q p"
  by (auto simp: overlapping_def Let_def abs_minus_commute)

lemma separated_snoc:
  "separated S (acc @ [p]) \<longleftrightarrow> separated S acc \<and> \<not> list_ex (overlapping S p) acc"
  by (induction acc) (auto simp: list_ex_iff overlapping_sym)

lemma scatterLoop_separated:
  "separated S acc \<Longrightarrow> \<forall>a \<in> set (scatterAttempts rnd W H S pcs k acc). a < maxAttempts \<Longrightarrow>
     separated S (scatterLoop rnd W H S pcs k acc)"
proof (induction pcs arbitrary: k acc)
  case Nil
  then show ?case by simp
next
  case (Cons p ps)
  obtain position k' attempts where sl: "sampleLoop rnd W H S acc k 0 = (position, k', attempts)"
    by (cases "sampleLoop rnd W H S acc k 0") auto
  from Cons.prems(2) sl have a: "attempts < maxAttempts"
    and rest: "\<forall>a \<in> set (scatterAttempts rnd W H S ps k' (acc @ [position])). a < maxAttempts"
    by auto
  from sampleLoop_early [of rnd W H S acc k 0] sl a
  have "\<not> list_ex (overlapping S position) acc" by simp
  with Cons.prems(1) have "separated S (acc @ [position])"
    by (simp add: separated_snoc)
  from Cons.IH [OF this rest] sl show ?case by simp
qed


lemma sampleLoop_accept:
  "\<not> list_ex (overlapping S \<lparr>pos_top = rnd k * (H - S), pos_left = rnd (Suc k) * (W - S)\<rparr>) placed \<Longrightarrow>
     sampleLoop rnd W H S placed k attempts
       = (\<lparr>pos_top = rnd k * (H - S), pos_left = rnd (Suc k) * (W - S)\<rparr>, k + 2, Suc attempts)"
  by (subst sampleLoop.simps) (simp add: Let_def)

lemma separated_nth:
  "separated S ps \<longleftrightarrow>
     (\<forall>i j. i < j \<and> j < length ps \<longrightarrow>
        S + padding \<le> \<bar>pos_left (ps ! i) - pos_left (ps ! j)\<bar>
        \<or> S + padding \<le> \<bar>pos_top (ps ! i) - pos_top (ps ! j)\<bar>)"
proof (induction ps)
  case Nil
  then show ?case by simp
next
  case (Cons p ps)
  have hd: "\<not> list_ex (overlapping S p) ps \<longleftrightarrow>
      (\<forall>j < length ps. S + padding \<le> \<bar>pos_left p - pos_left (ps ! j)\<bar>
         \<or> S + padding \<le> \<bar>pos_top p - pos_top (ps ! j)\<bar>)"
  proof -
    have "\<And>q. overlapping S p q \<longleftrightarrow>
        \<not> (S + padding \<le> \<bar>pos_left p - pos_left q\<bar> \<or> S + padding \<le> \<bar>pos_top p - pos_top q\<bar>)"
      by (simp add: overlapping_def Let_def not_le abs_minus_commute)
    then show ?thesis
      by (simp add: list_ex_iff all_set_conv_all_nth)
  qed
  show ?case
    unfolding separated.simps Cons.IH hd
    by (auto simp: less_Suc_eq_0_disj nth_Cons split: nat.splits) 
qed

text \<open>
  Claim C5. The scatter placement generator terminates and returns exactly one position
  per input piece. \<open>sampleLoop\<close> and \<open>scatterLoop\<close> are total functions (the
  termination of \<open>sampleLoop\<close> is proved from the attempt counter), so every call
  returns. For every list of pieces the result has the length of the list, in both
  components, whatever the random values are and whether or not the accepted positions
  overlap; every piece's sampling loop, started with \<open>attempts = 0\<close>, ends with
  \<open>attempts\<close> between 1 and \<open>maxAttempts = 1000\<close>, that is after at most 1000
  iterations.
\<close>

theorem scatter_returns_one_position_per_piece:
  "length (scatter rnd W H S pcs) = length pcs
   \<and> length (scatter_ScatteredPieces rnd pcs) = length pcs
   \<and> length (scatter_ReconstructionAnimation rnd pcs) = length pcs
   \<and> (\<forall>placed k. 1 \<le> snd (snd (sampleLoop rnd W H S placed k 0))
          \<and> snd (snd (sampleLoop rnd W H S placed k 0)) \<le> maxAttempts)
   \<and> maxAttempts = 1000"
proof -
  have "\<And>placed k. 1 \<le> snd (snd (sampleLoop rnd W H S placed k 0))
          \<and> snd (snd (sampleLoop rnd W H S placed k 0)) \<le> maxAttempts"
    using sampleLoop_attempts [of 0 rnd W H S] by (auto simp: maxAttempts_def Suc_le_eq)
  then show ?thesis
    by (simp add: scatter_def scatter_ScatteredPieces_def scatter_ReconstructionAnimation_def
        length_scatterLoop maxAttempts_def)
qed

lemma sampleLoop_in_range:
  assumes "\<forall>n. 0 \<le> rnd n \<and> rnd n < 1" and "S \<le> W" and "S \<le> H"
  shows "0 \<le> pos_top (fst (sampleLoop rnd W H S placed k attempts))
       \<and> pos_top (fst (sampleLoop rnd W H S placed k attempts)) \<le> H - S
       \<and> 0 \<le> pos_left (fst (sampleLoop rnd W H S placed k attempts))
       \<and> pos_left (fst (sampleLoop rnd W H S placed k attempts)) \<le> W - S"
  using assms
proof (induction rnd W H S placed k attempts rule: sampleLoop.induct)
  case (1 rnd W H S placed k attempts)
  let ?pos = "\<lparr>pos_top = rnd k * (H - S), pos_left = rnd (Suc k) * (W - S)\<rparr>"
  show ?case
  proof (cases "list_ex (overlapping S ?pos) placed \<and> Suc attempts < maxAttempts")
    case True
    then have eq: "sampleLoop rnd W H S placed k attempts
        = sampleLoop rnd W H S placed (k + 2) (Suc attempts)"
      by (subst sampleLoop.simps) (simp add: Let_def)
    from "1.IH" [OF refl refl refl True "1.prems"] show ?thesis
      by (simp add: eq)
  next
    case False
    then have eq: "sampleLoop rnd W H S placed k attempts = (?pos, k + 2, Suc attempts)"
      by (subst sampleLoop.simps) (auto simp: Let_def)
    have a: "0 \<le> rnd k \<and> rnd k \<le> 1" "0 \<le> rnd (Suc k) \<and> rnd (Suc k) \<le> 1"
      using "1.prems"(1) by (auto intro: less_imp_le)
    have b: "0 \<le> H - S" "0 \<le> W - S"
      using "1.prems"(2,3) by simp_all
    show ?thesis
      unfolding eq using a b by (simp add: mult_left_le_one_le)
  qed
qed

text \<open>
  In ScatteredPieces the horizontal sampling range is \<open>[0, 500]\<close> and two pieces need
  a horizontal distance of 305. When the first piece lands with its left edge strictly
  between 195 and 305, no sample for the second piece is far enough from it, whatever
  the later random values are.
\<close>

lemma first_piece_can_block_second:
  assumes "\<forall>n. 0 \<le> rnd n \<and> rnd n < 1" and "195 / 500 < rnd 1" and "rnd 1 < 305 / 500"
  shows "\<not> separated 300 (scatter_ScatteredPieces rnd [a, b])"
proof -
  let ?p1 = "\<lparr>pos_top = rnd 0 * (400 - 300), pos_left = rnd (Suc 0) * (800 - 300)\<rparr>"
  have first: "sampleLoop rnd 800 400 300 [] 0 0 = (?p1, 2, Suc 0)"
    using sampleLoop_accept [of 300 rnd 0 400 800 "[]" 0] by simp
  let ?p2 = "fst (sampleLoop rnd 800 400 300 [?p1] 2 0)"
  have res: "scatter_ScatteredPieces rnd [a, b] = [?p1, ?p2]"
    by (simp add: scatter_ScatteredPieces_def scatter_def first case_prod_beta)
  have r2: "0 \<le> pos_top ?p2 \<and> pos_top ?p2 \<le> 100 \<and> 0 \<le> pos_left ?p2 \<and> pos_left ?p2 \<le> 500"
    using sampleLoop_in_range [OF assms(1), of 300 800 400 "[?p1]" 2 0] by simp
  have r0: "0 \<le> rnd 0 \<and> rnd 0 < 1"
    using assms(1) by blast
  have "overlapping 300 ?p1 ?p2"
    using r2 r0 assms(2,3) by (simp add: overlapping_def Let_def padding_def abs_if)
  then show ?thesis
    unfolding res by simp
qed

text \<open>
  Claim C6, as stated, fails. In the container of ScatteredPieces (800 by 400, pieces of
  300, padding 5) two pieces can be placed without overlap, for instance at left 0 and
  left 500. With all random values equal to 1/2 the first piece lands at left 250; every
  sample for the second piece is then within 305 of it on both axes, the loop runs out
  of attempts and accepts the last sample: both pieces are at the same position.
\<close>

theorem scatter_overlap_counterexample:
  "in_region 800 400 300 [\<lparr>pos_top = 0, pos_left = 0\<rparr>, \<lparr>pos_top = 0, pos_left = 500\<rparr>]
   \<and> separated 300 [\<lparr>pos_top = 0, pos_left = 0\<rparr>, \<lparr>pos_top = 0, pos_left = 500\<rparr>]
   \<and> scatter_ScatteredPieces (constant_rnd (1 / 2)) [''a'', ''b'']
        = [\<lparr>pos_top = 50, pos_left = 250\<rparr>, \<lparr>pos_top = 50, pos_left = 250\<rparr>]
   \<and> \<not> separated 300 (scatter_ScatteredPieces (constant_rnd (1 / 2)) [''a'', ''b''])"
proof -
  have c: "constant_rnd (1 / 2) = (\<lambda>n. 1 / 2)"
    by (simp add: constant_rnd_def fun_eq_iff)
  have v: "scatter_ScatteredPieces (constant_rnd (1 / 2)) [''a'', ''b'']
        = [\<lparr>pos_top = 50, pos_left = 250\<rparr>, \<lparr>pos_top = 50, pos_left = 250\<rparr>]"
    by (simp add: scatter_ScatteredPieces_def scatter_def c case_prod_beta sampleLoop_const)
  show ?thesis
    unfolding v by (simp add: in_region_def overlapping_def padding_def)
qed

text \<open>
  Claim C6, amended. If every piece's sampling loop ends before the attempt bound is
  reached (\<open>attempts < maxAttempts\<close>), the returned positions are pairwise
  non-overlapping under the axis-aligned separation test: for every pair,
  \<open>|dx| \<ge> S + P\<close> or \<open>|dy| \<ge> S + P\<close>. A loop that reaches the bound accepts its last
  sample as it is.
\<close>

theorem scatter_separated_within_bound:
  assumes "\<forall>a \<in> set (scatterAttempts rnd W H S pcs 0 []). a < maxAttempts"
  shows "separated S (scatter rnd W H S pcs)
       \<and> (\<forall>i j. i < j \<and> j < length (scatter rnd W H S pcs) \<longrightarrow>
            S + padding \<le> \<bar>pos_left (scatter rnd W H S pcs ! i) - pos_left (scatter rnd W H S pcs ! j)\<bar>
          \<or> S + padding \<le> \<bar>pos_top (scatter rnd W H S pcs ! i) - pos_top (scatter rnd W H S pcs ! j)\<bar>)"
proof -
  have "separated S (scatter rnd W H S pcs)"
    unfolding scatter_def using assms by (intro scatterLoop_separated) simp_all
  then show ?thesis
    using separated_nth [of S "scatter rnd W H S pcs"] by blast
qed

theorem scatter_separated_within_bound_witness:
  "scatterAttempts spread_rnd 800 400 300 [''a'', ''b''] 0 [] = [1, 1]
   \<and> scatter spread_rnd 800 400 300 [''a'', ''b'']
        = [\<lparr>pos_top = 0, pos_left = 0\<rparr>, \<lparr>pos_top = 0, pos_left = 450\<rparr>]
   \<and> separated 300 (scatter spread_rnd 800 400 300 [''a'', ''b''])"
proof -
  have a: "scatterAttempts spread_rnd 800 400 300 [''a'', ''b''] 0 [] = [1, 1]"
    by (simp add: sampleLoop_accept spread_rnd_def overlapping_def padding_def)
  have h: "\<forall>a \<in> set (scatterAttempts spread_rnd 800 400 300 [''a'', ''b''] 0 []). a < maxAttempts"
    unfolding a by (simp add: maxAttempts_def)
  have v: "scatter spread_rnd 800 400 300 [''a'', ''b'']
        = [\<lparr>pos_top = 0, pos_left = 0\<rparr>, \<lparr>pos_top = 0, pos_left = 450\<rparr>]"
    by (simp add: scatter_def sampleLoop_accept spread_rnd_def overlapping_def padding_def)
  from scatter_separated_within_bound [OF h] a v show ?thesis
    by simp
qed

subsection \<open>Coordinate transforms\<close>

lemma Num_add [simp]: "Num a + Num b = Num (a + b)"
  by (simp add: plus_jsnum_def jadd_def)

lemma Num_sub [simp]: "Num a - Num b = Num (a - b)"
  by (simp add: minus_jsnum_def jadd_def)

lemma Num_mul: "Num a * Num b = (if a * b = 0 \<and> (a < 0 \<or> b < 0) then NegZero else Num (a * b))"
  by (auto simp: times_jsnum_def jmul_def zero_of_def)

lemma Num_mul_pos [simp]: "0 < b \<Longrightarrow> Num a * Num b = Num (a * b)"
  by (auto simp: Num_mul)

lemma Num_mul_nonzero: "a * b \<noteq> 0 \<Longrightarrow> Num a * Num b = Num (a * b)"
  by (simp add: Num_mul)

lemma Num_mul_zero: "Num 0 * Num b = (if b < 0 then NegZero else Num 0)"
  by (simp add: Num_mul)

lemma Num_div: "b \<noteq> 0 \<Longrightarrow> Num a / Num b = (if a = 0 \<and> b < 0 then NegZero else Num (a / b))"
  by (auto simp: divide_jsnum_def jdiv_def zero_of_def)

lemma Num_div_pos [simp]: "0 < b \<Longrightarrow> Num a / Num b = Num (a / b)"
  by (simp add: Num_div)

lemma Num_div_zero:
  "Num a / Num 0 = (if a = 0 then NaN else if 0 < a then PosInf else NegInf)"
  "Num a / NegZero = (if a = 0 then NaN else if 0 < a then NegInf else PosInf)"
  by (auto simp: divide_jsnum_def jdiv_def inf_of_def)

lemma jmin_Num [simp]: "jmin (Num a) (Num b) = Num (min a b)"
  by (auto simp: jmin_def)

lemma jmin_inf [simp]:
  "jmin PosInf (Num b) = Num b" "jmin PosInf PosInf = PosInf"
  "jmin NegInf y = (if y = NaN then NaN else NegInf)"
  "jmin x NegInf = (if x = NaN then NaN else NegInf)"
  by (auto simp: jmin_def)

lemma Inf_times [simp]:
  "0 < b \<Longrightarrow> PosInf * Num b = PosInf"
  "0 < b \<Longrightarrow> NegInf * Num b = NegInf"
  "NaN * y = NaN"
  by (simp_all add: times_jsnum_def jmul_def inf_of_def)

lemma NaN_absorbs [simp]:
  "NaN + y = NaN" "x + NaN = NaN" "NaN - y = NaN" "x - NaN = NaN" "NaN / y = NaN" "x * NaN = NaN"
  by (simp_all add: plus_jsnum_def minus_jsnum_def divide_jsnum_def times_jsnum_def
      jadd_def jdiv_def jmul_def)

lemma zero_times_NegInf [simp]:
  "Num 0 * NegInf = NaN" "NegZero * NegInf = NaN"
  by (simp_all add: times_jsnum_def jmul_def)


lemma scale_ReconstructionAnimation_pos:
  assumes "0 < gridSize * width pd" and "0 < gridSize * height pd"
  shows "scale_ReconstructionAnimation gridSize pd
           = Num (min (min (containerWidth / (gridSize * width pd))
                           (containerHeight / (gridSize * height pd))) 1)"
proof -
  have "gridSize * width pd \<noteq> 0" and "gridSize * height pd \<noteq> 0"
    using assms by auto
  then show ?thesis
    using assms by (simp add: scale_ReconstructionAnimation_def Let_def Num_mul_nonzero)
qed

lemma scale_overlay_pos:
  assumes "0 < width canvas" and "0 < height canvas"
  shows "scale_overlay canvas = Num (min (min (800 / width canvas) (600 / height canvas)) 1)"
  using assms by (simp add: scale_overlay_def Let_def)

lemma overlay_scale_pos:
  assumes "0 < w" and "0 < h"
  shows "0 < min (min (800 / w) (600 / h)) (1::real)"
  using assms by simp

lemma finalPositions_pos:
  assumes "0 < gridSize * width pd" and "0 < gridSize * height pd"
  shows "finalPositions gridSize pd coords
      = map (\<lambda>c. \<lparr>pos_top = Num (coord_top c
                         * min (min (containerWidth / (gridSize * width pd))
                                    (containerHeight / (gridSize * height pd))) 1
                       + (containerHeight - gridSize * height pd
                           * min (min (containerWidth / (gridSize * width pd))
                                      (containerHeight / (gridSize * height pd))) 1) / 2),
                   pos_left = Num (coord_left c
                         * min (min (containerWidth / (gridSize * width pd))
                                    (containerHeight / (gridSize * height pd))) 1
                       + (containerWidth - gridSize * width pd
                           * min (min (containerWidth / (gridSize * width pd))
                                      (containerHeight / (gridSize * height pd))) 1) / 2)\<rparr>)
          coords"
proof -
  let ?s = "min (min (containerWidth / (gridSize * width pd))
                     (containerHeight / (gridSize * height pd))) 1"
  have pos: "0 < ?s"
    using assms by (simp add: containerWidth_def containerHeight_def)
  have nz: "gridSize * width pd \<noteq> 0" "gridSize * height pd \<noteq> 0"
    using assms by auto
  show ?thesis
    unfolding finalPositions_def scale_ReconstructionAnimation_pos [OF assms] Let_def
    using pos nz by (simp add: Num_mul_nonzero)
qed

lemma overlay_point_pos:
  assumes "0 < width canvas" and "0 < height canvas"
  shows "overlay_point canvas (x, y)
      = \<lparr>pos_top = Num (y * min (min (800 / width canvas) (600 / height canvas)) 1 + 300),
         pos_left = Num (x * min (min (800 / width canvas) (600 / height canvas)) 1 + 400)\<rparr>"
proof -
  have "0 < min (min (800 / width canvas) (600 / height canvas)) 1"
    using assms by simp
  then show ?thesis
    unfolding overlay_point_def scale_overlay_pos [OF assms] Let_def by simp
qed

text \<open>
  Claim C3, as stated, fails for the overlay of App. For a 1600 by 1200 canvas the scale
  is 1/2 and the centring offset of the claim is (0, 0), so the claim sends the point
  (10, 20) to (5, 10); the overlay sends it to left 405 and top 310. For an 800 by 600
  canvas the overlay sends it to left 410 and top 320. The overlay adds the centre of the
  box, (400, 300), whatever the canvas size is.
\<close>

theorem overlay_offset_counterexample:
  "scale_overlay \<lparr>width = 1600, height = 1200\<rparr> = Num (1 / 2)
   \<and> (800 - 1600 * (1 / 2)) / 2 = (0::real)
   \<and> (600 - 1200 * (1 / 2)) / 2 = (0::real)
   \<and> overlay_point \<lparr>width = 1600, height = 1200\<rparr> (10, 20)
        = \<lparr>pos_top = Num 310, pos_left = Num 405\<rparr>
   \<and> overlay_point \<lparr>width = 800, height = 600\<rparr> (10, 20)
        = \<lparr>pos_top = Num 320, pos_left = Num 410\<rparr>"
  by (simp add: overlay_point_def scale_overlay_def)

text \<open>
  Claim C3, amended. For a source of positive width and height both transforms use the
  uniform scale \<open>min (800 / srcWidth, 600 / srcHeight, 1)\<close> into the fixed 800 by 600
  box, which is positive and at most 1. In ReconstructionAnimation the source size is
  \<open>gridSize * pieceDimensions\<close> and the point \<open>(top, left)\<close> goes to
  \<open>top * s + (containerHeight - srcHeight * s) / 2\<close> and
  \<open>left * s + (containerWidth - srcWidth * s) / 2\<close>; a 1600 by 1200 source gives scale
  1/2 and centring offset (0, 0), an 800 by 600 source scale 1 and offset (0, 0). In the
  overlay of App the source size is the canvas size and the point \<open>(x, y)\<close> goes to
  \<open>x * s + 400\<close> and \<open>y * s + 300\<close>: the offset is the centre of the box.
\<close>

theorem transform_never_upscales_and_centres:
  assumes "0 < gridSize * width pd" and "0 < gridSize * height pd"
      and "0 < width canvas" and "0 < height canvas"
  shows "let srcWidth = gridSize * width pd;
             srcHeight = gridSize * height pd;
             s = min (min (containerWidth / srcWidth) (containerHeight / srcHeight)) 1;
             s' = min (min (800 / width canvas) (600 / height canvas)) 1
         in scale_ReconstructionAnimation gridSize pd = Num s
          \<and> 0 < s \<and> s \<le> 1
          \<and> finalPositions gridSize pd coords
              = map (\<lambda>c. \<lparr>pos_top = Num (coord_top c * s + (containerHeight - srcHeight * s) / 2),
                           pos_left = Num (coord_left c * s + (containerWidth - srcWidth * s) / 2)\<rparr>)
                  coords
          \<and> scale_overlay canvas = Num s'
          \<and> 0 < s' \<and> s' \<le> 1
          \<and> overlay_point canvas (x, y)
              = \<lparr>pos_top = Num (y * s' + 300), pos_left = Num (x * s' + 400)\<rparr>
          \<and> scale_ReconstructionAnimation 4 \<lparr>width = 400, height = 300\<rparr> = Num (1 / 2)
          \<and> (containerWidth - 4 * 400 * (1 / 2)) / 2 = 0
          \<and> (containerHeight - 4 * 300 * (1 / 2)) / 2 = 0
          \<and> scale_ReconstructionAnimation 4 \<lparr>width = 200, height = 150\<rparr> = Num 1
          \<and> (containerWidth - 4 * 200 * 1) / 2 = 0
          \<and> (containerHeight - 4 * 150 * 1) / 2 = 0
          \<and> scale_overlay \<lparr>width = 1600, height = 1200\<rparr> = Num (1 / 2)
          \<and> scale_overlay \<lparr>width = 800, height = 600\<rparr> = Num 1"
proof -
  let ?s = "min (min (containerWidth / (gridSize * width pd))
                     (containerHeight / (gridSize * height pd))) 1"
  let ?s' = "min (min (800 / width canvas) (600 / height canvas)) (1::real)"
  have sc: "scale_ReconstructionAnimation gridSize pd = Num ?s"
    by (rule scale_ReconstructionAnimation_pos [OF assms(1,2)])
  have pos: "0 < ?s"
    using assms(1,2) by (simp add: containerWidth_def containerHeight_def)
  have le: "?s \<le> 1"
    by simp
  note fp = finalPositions_pos [OF assms(1,2), of coords]
  note ov = scale_overlay_pos [OF assms(3,4)]
  have pos': "0 < ?s'"
    using assms(3,4) by simp
  have le': "?s' \<le> 1"
    by simp
  note op = overlay_point_pos [OF assms(3,4), of x y]
  have big: "scale_ReconstructionAnimation 4 \<lparr>width = 400, height = 300\<rparr> = Num (1 / 2)"
    by (simp add: scale_ReconstructionAnimation_def containerWidth_def containerHeight_def)
  have same: "scale_ReconstructionAnimation 4 \<lparr>width = 200, height = 150\<rparr> = Num 1"
    by (simp add: scale_ReconstructionAnimation_def containerWidth_def containerHeight_def)
  have off: "(containerWidth - 4 * 400 * (1 / 2)) / 2 = 0"
    "(containerHeight - 4 * 300 * (1 / 2)) / 2 = 0"
    "(containerWidth - 4 * 200 * 1) / 2 = 0"
    "(containerHeight - 4 * 150 * 1) / 2 = 0"
    by (simp_all add: containerWidth_def containerHeight_def)
  have ovs: "scale_overlay \<lparr>width = 1600, height = 1200\<rparr> = Num (1 / 2)"
    "scale_overlay \<lparr>width = 800, height = 600\<rparr> = Num 1"
    by (simp_all add: scale_overlay_def)
  show ?thesis
    unfolding Let_def using sc pos le fp ov pos' le' op big same off ovs by blast
qed

theorem transform_never_upscales_and_centres_witness:
  "(0::real) < 4 * width \<lparr>width = 400, height = 300\<rparr>
   \<and> (0::real) < 4 * height \<lparr>width = 400, height = 300\<rparr>
   \<and> scale_ReconstructionAnimation 4 \<lparr>width = 400, height = 300\<rparr> = Num (1 / 2)
   \<and> scale_overlay \<lparr>width = 1600, height = 1200\<rparr> = Num (1 / 2)
   \<and> finalPositions 4 \<lparr>width = 400, height = 300\<rparr>
        [\<lparr>coord_piece_index = 0, coord_top = 300, coord_left = 400\<rparr>]
       = [\<lparr>pos_top = Num 150, pos_left = Num 200\<rparr>]
   \<and> overlay_point \<lparr>width = 1600, height = 1200\<rparr> (400, 300)
       = \<lparr>pos_top = Num 450, pos_left = Num 600\<rparr>"
proof -
  have h: "(0::real) < 4 * width \<lparr>width = 400, height = 300\<rparr>"
    "(0::real) < 4 * height \<lparr>width = 400, height = 300\<rparr>"
    "0 < width \<lparr>width = 1600, height = 1200\<rparr>"
    "0 < height \<lparr>width = 1600, height = 1200\<rparr>"
    by simp_all
  from transform_never_upscales_and_centres [OF h,
      of "[\<lparr>coord_piece_index = 0, coord_top = 300, coord_left = 400\<rparr>]" 400 300]
  show ?thesis
    by (simp add: Let_def containerWidth_def containerHeight_def)
qed

text \<open>
  Claim C4, as stated, fails: no transform checks its source size and the code has no
  geometry error. With a source of width 0 and height 0 the rebuild of ScatteredPieces
  returns \<open>NaN\<close> for the coordinate 0 and \<open>Infinity\<close> for the coordinate 10, and the
  transform of ReconstructionAnimation with \<open>gridSize = 0\<close> returns a position
  computed from the scales \<open>800 / 0\<close> and \<open>600 / 0\<close>.
\<close>

theorem zero_source_size_counterexample:
  "rebuiltPositions [\<lparr>pos_top = 0, pos_left = 10\<rparr>] \<lparr>width = 0, height = 0\<rparr>
     = [\<lparr>pos_top = NaN, pos_left = PosInf\<rparr>]
   \<and> Num containerWidth / (Num 0 * Num 100) = PosInf
   \<and> finalPositions 0 \<lparr>width = 100, height = 100\<rparr>
        [\<lparr>coord_piece_index = 0, coord_top = 10, coord_left = 20\<rparr>]
     = [\<lparr>pos_top = Num 310, pos_left = Num 420\<rparr>]"
  by (simp add: rebuiltPositions_def finalPositions_def scale_ReconstructionAnimation_def
      Num_div_zero Num_mul_zero containerWidth_def containerHeight_def
      containerHeight_ScatteredPieces_def)

lemma zero_source_candidate:
  assumes "g * w = 0"
  shows "Num c / (Num g * Num w)
           = (if c = 0 then NaN
              else if (0 < c) = (g < 0 \<or> w < 0) then NegInf else PosInf)"
  using assms by (auto simp: Num_mul Num_div_zero)

lemma scale_grid_zero:
  "scale_ReconstructionAnimation 0 pd
     = (if width pd < 0 \<or> height pd < 0 then NegInf else Num 1)"
  by (auto simp: scale_ReconstructionAnimation_def Num_mul_zero Num_div_zero
      containerWidth_def containerHeight_def)

lemma finalPositions_grid_zero:
  "finalPositions 0 pd coords
     = (if width pd < 0 \<or> height pd < 0
        then map (\<lambda>c. \<lparr>pos_top = NaN, pos_left = NaN\<rparr>) coords
        else map (\<lambda>c. \<lparr>pos_top = Num (coord_top c + 300), pos_left = Num (coord_left c + 400)\<rparr>)
               coords)"
  by (auto simp: finalPositions_def scale_grid_zero Num_mul_zero
      containerWidth_def containerHeight_def)

text \<open>
  Claim C4, amended. When the source width or height is zero the transforms do not
  fail; they return one position per input point, computed by IEEE division by zero.
  In the rebuild of ScatteredPieces, on the axis whose source size is zero a coordinate
  0 becomes \<open>NaN\<close>, a positive one \<open>Infinity\<close> and a negative one \<open>-Infinity\<close>. In
  ReconstructionAnimation a source width \<open>gridSize * width\<close> that is zero makes the
  scale candidate \<open>800 / srcWidth\<close> \<open>-Infinity\<close> when \<open>gridSize\<close> or the width is
  negative (the product is then the negative zero) and \<open>Infinity\<close> otherwise, and
  likewise for the height. With \<open>gridSize = 0\<close>: if no piece dimension is negative
  the scale is 1 and each point is shifted by (300, 400); if one is negative the scale
  is \<open>-Infinity\<close> and every position is \<open>NaN\<close>. The overlay of App replaces a zero
  canvas width by 800 and a zero canvas height by 600 before it divides.
\<close>

theorem zero_source_size_is_not_rejected:
  assumes "width ois = 0 \<or> height ois = 0"
  shows "length (rebuiltPositions ops ois) = length ops
       \<and> (height ois = 0 \<longrightarrow> (\<forall>i < length ops.
             pos_top (rebuiltPositions ops ois ! i)
               = (if pos_top (ops ! i) = 0 then NaN
                  else if 0 < pos_top (ops ! i) then PosInf else NegInf)))
       \<and> (width ois = 0 \<longrightarrow> (\<forall>i < length ops.
             pos_left (rebuiltPositions ops ois ! i)
               = (if pos_left (ops ! i) = 0 then NaN
                  else if 0 < pos_left (ops ! i) then PosInf else NegInf)))
       \<and> (gridSize * width pd = 0 \<longrightarrow>
             Num containerWidth / (Num gridSize * Num (width pd))
               = (if gridSize < 0 \<or> width pd < 0 then NegInf else PosInf))
       \<and> (gridSize * height pd = 0 \<longrightarrow>
             Num containerHeight / (Num gridSize * Num (height pd))
               = (if gridSize < 0 \<or> height pd < 0 then NegInf else PosInf))
       \<and> length (finalPositions gridSize pd coords) = length coords
       \<and> (0 \<le> width pd \<and> 0 \<le> height pd \<longrightarrow>
             scale_ReconstructionAnimation 0 pd = Num 1
           \<and> finalPositions 0 pd coords
               = map (\<lambda>c. \<lparr>pos_top = Num (coord_top c + 300), pos_left = Num (coord_left c + 400)\<rparr>)
                   coords)
       \<and> (width pd < 0 \<or> height pd < 0 \<longrightarrow>
             scale_ReconstructionAnimation 0 pd = NegInf
           \<and> finalPositions 0 pd coords = map (\<lambda>c. \<lparr>pos_top = NaN, pos_left = NaN\<rparr>) coords)
       \<and> scale_overlay canvas
            = scale_overlay \<lparr>width = (if width canvas = 0 then 800 else width canvas),
                            height = (if height canvas = 0 then 600 else height canvas)\<rparr>
       \<and> scale_overlay \<lparr>width = 0, height = 0\<rparr> = Num 1"
proof -
  have 1: "length (rebuiltPositions ops ois) = length ops"
    by (simp add: rebuiltPositions_def)
  have 2: "pos_top (rebuiltPositions ops ois ! i)
      = (if pos_top (ops ! i) = 0 then NaN else if 0 < pos_top (ops ! i) then PosInf else NegInf)"
    if "height ois = 0" and "i < length ops" for i
    using that
    by (simp add: rebuiltPositions_def Num_div_zero containerHeight_ScatteredPieces_def)
  have 3: "pos_left (rebuiltPositions ops ois ! i)
      = (if pos_left (ops ! i) = 0 then NaN else if 0 < pos_left (ops ! i) then PosInf else NegInf)"
    if "width ois = 0" and "i < length ops" for i
    using that
    by (simp add: rebuiltPositions_def Num_div_zero containerWidth_def)
  have 4: "Num containerWidth / (Num gridSize * Num (width pd))
               = (if gridSize < 0 \<or> width pd < 0 then NegInf else PosInf)"
    if "gridSize * width pd = 0"
    using zero_source_candidate [OF that, of containerWidth] by (simp add: containerWidth_def)
  have 5: "Num containerHeight / (Num gridSize * Num (height pd))
               = (if gridSize < 0 \<or> height pd < 0 then NegInf else PosInf)"
    if "gridSize * height pd = 0"
    using zero_source_candidate [OF that, of containerHeight] by (simp add: containerHeight_def)
  have 6: "length (finalPositions gridSize pd coords) = length coords"
    by (simp add: finalPositions_def Let_def)
  have 7: "scale_ReconstructionAnimation 0 pd = Num 1
           \<and> finalPositions 0 pd coords
               = map (\<lambda>c. \<lparr>pos_top = Num (coord_top c + 300), pos_left = Num (coord_left c + 400)\<rparr>)
                   coords"
    if "0 \<le> width pd \<and> 0 \<le> height pd"
    using that by (simp add: scale_grid_zero finalPositions_grid_zero not_less [symmetric])
  have 8: "scale_ReconstructionAnimation 0 pd = NegInf
           \<and> finalPositions 0 pd coords = map (\<lambda>c. \<lparr>pos_top = NaN, pos_left = NaN\<rparr>) coords"
    if "width pd < 0 \<or> height pd < 0"
    using that by (simp add: scale_grid_zero finalPositions_grid_zero)
  have 9: "scale_overlay canvas
            = scale_overlay \<lparr>width = (if width canvas = 0 then 800 else width canvas),
                            height = (if height canvas = 0 then 600 else height canvas)\<rparr>"
    by (simp add: scale_overlay_def)
  have 10: "scale_overlay \<lparr>width = 0, height = 0\<rparr> = Num 1"
    by (simp add: scale_overlay_def)
  from 1 2 3 4 5 6 7 8 9 10 show ?thesis
    by blast
qed

theorem zero_source_size_is_not_rejected_witness:
  "width \<lparr>width = 0, height = 2\<rparr> = 0
   \<and> length (rebuiltPositions [\<lparr>pos_top = 5, pos_left = 10\<rparr>] \<lparr>width = 0, height = 2\<rparr>) = 1
   \<and> pos_left (rebuiltPositions [\<lparr>pos_top = 5, pos_left = 10\<rparr>] \<lparr>width = 0, height = 2\<rparr> ! 0)
       = PosInf
   \<and> scale_ReconstructionAnimation 0 \<lparr>width = 100, height = 100\<rparr> = Num 1
   \<and> scale_ReconstructionAnimation 0 \<lparr>width = - 100, height = 100\<rparr> = NegInf
   \<and> finalPositions 0 \<lparr>width = - 100, height = 100\<rparr>
        [\<lparr>coord_piece_index = 0, coord_top = 10, coord_left = 20\<rparr>]
       = [\<lparr>pos_top = NaN, pos_left = NaN\<rparr>]"
proof -
  have h: "width \<lparr>width = 0, height = 2\<rparr> = 0 \<or> height \<lparr>width = 0, height = 2\<rparr> = 0"
    by simp
  from zero_source_size_is_not_rejected [OF h,
      where ops = "[\<lparr>pos_top = 5, pos_left = 10\<rparr>]" and pd = "\<lparr>width = 100, height = 100\<rparr>"]
    zero_source_size_is_not_rejected [OF h,
      where pd = "\<lparr>width = - 100, height = 100\<rparr>"
        and coords = "[\<lparr>coord_piece_index = 0, coord_top = 10, coord_left = 20\<rparr>]"]
  show ?thesis
    by simp
qed

subsection \<open>Animation\<close>

lemma progress_of_mono:
  "e1 \<le> e2 \<Longrightarrow> progress_of e1 animationDuration \<le> progress_of e2 animationDuration"
  by (simp add: progress_of_def animationDuration_def min_def)

text \<open>
  Claim C9, as stated, fails: the code computes \<^verbatim>\<open>Math.min(elapsed / duration, 1)\<close>
  and has no lower clamp. A frame whose time stamp lies 1000 ms before the recorded start
  time has progress -1/2, outside \<open>[0, 1]\<close>.
\<close>

theorem progress_negative_counterexample:
  "progress_of (- 1000) animationDuration = - (1 / 2)
   \<and> \<not> 0 \<le> progress_of (- 1000) animationDuration"
  by (simp add: progress_of_def animationDuration_def)

text \<open>
  Claim C9, amended. The progress \<open>min (elapsed / 2000) 1\<close> is monotonically
  non-decreasing in the elapsed time, never exceeds 1, equals exactly 1 for every elapsed
  time of at least the duration, and lies in \<open>[0, 1]\<close> whenever the elapsed time is not
  negative; for a negative elapsed time it is negative.
\<close>

theorem progress_monotone_and_capped:
  "(e1 \<le> e2 \<longrightarrow> progress_of e1 animationDuration \<le> progress_of e2 animationDuration)
   \<and> progress_of e animationDuration \<le> 1
   \<and> (animationDuration \<le> e \<longrightarrow> progress_of e animationDuration = 1)
   \<and> (0 \<le> e \<longrightarrow> 0 \<le> progress_of e animationDuration)
   \<and> (e < 0 \<longrightarrow> progress_of e animationDuration < 0)
   \<and> progress_of e animationDuration = min (e / 2000) 1"
  by (auto simp: progress_of_def animationDuration_def min_def)

theorem progress_monotone_and_capped_witness:
  "progress_of 500 animationDuration = 1 / 4
   \<and> progress_of 1000 animationDuration = 1 / 2
   \<and> progress_of 2000 animationDuration = 1
   \<and> progress_of 3000 animationDuration = 1
   \<and> progress_of 500 animationDuration \<le> progress_of 1000 animationDuration"
  using progress_monotone_and_capped [of 500 1000 3000]
  by (simp add: progress_of_def animationDuration_def)

lemma animate_stale:
  "currentAnimationId r \<noteq> animationIdRef s \<Longrightarrow> animate r t s = (s, False)"
  by (simp add: animate_def)

lemma animationIdRef_animate [simp]:
  "animationIdRef (fst (animate r t s)) = animationIdRef s"
  by (simp add: animate_def Let_def)

lemma animationIdRef_startAnimation:
  "animationIdRef s \<le> animationIdRef (fst (startAnimation rnd now pd s))"
  by (simp add: startAnimation_def Let_def split: option.splits)

lemma startAnimation_run:
  "startAnimation rnd now pd s = (s', Some r) \<Longrightarrow>
     currentAnimationId r = Suc (animationIdRef s) \<and> animationIdRef s' = Suc (animationIdRef s)"
  by (auto simp: startAnimation_def Let_def split: option.splits)

lemma animationIdRef_step: "animationIdRef s \<le> animationIdRef (step e s)"
  by (cases e)
     (simp_all add: animationIdRef_startAnimation closeAnimation_def resetState_def
        handleReset_def handleImageUpload_def handleZipUpload_def handleRebuild_def
        cleanup_isAnimating_def effect_placementData_def Let_def
        split: response.splits option.splits)

lemma animationIdRef_exec: "animationIdRef s \<le> animationIdRef (exec es s)"
proof (induction es arbitrary: s)
  case Nil
  then show ?case by simp
next
  case (Cons e es)
  have "animationIdRef s \<le> animationIdRef (step e s)"
    by (rule animationIdRef_step)
  also have "\<dots> \<le> animationIdRef (exec es (step e s))"
    by (rule Cons.IH)
  finally show ?case by simp
qed

lemma startAnimation_RA_Some:
  "startAnimation_ReconstructionAnimation now g pd (c # cs) s
     = (fst (startAnimation_ReconstructionAnimation now g pd (c # cs) s),
        Some (the (snd (startAnimation_ReconstructionAnimation now g pd (c # cs) s))))"
  by (simp add: startAnimation_ReconstructionAnimation_def Let_def)

lemma Num_add_mul: "Num a + Num d * Num e = Num (a + d * e)"
  by (auto simp: Num_mul plus_jsnum_def jadd_def)

lemma lerp_Num: "Num a + (Num b - Num a) * Num e = Num (a + (b - a) * e)"
  by (simp add: Num_add_mul)

lemma ra_run_A_value:
  "ra_run_A = \<lparr>ra_startTime = 0, ra_start = [\<lparr>pos_top = Num 10, pos_left = Num 20\<rparr>],
               ra_final = [\<lparr>pos_top = Num 300, pos_left = Num 400\<rparr>]\<rparr>"
  by (simp add: ra_run_A_def startAnimation_ReconstructionAnimation_def ra_initial_def
      finalPositions_def scale_ReconstructionAnimation_def containerWidth_def containerHeight_def)

lemma ra_state_B_value:
  "ra_state_B = \<lparr>ra_positions = [\<lparr>pos_top = Num 225, pos_left = Num 325\<rparr>],
                 ra_isAnimating = True, ra_animationProgress = 0\<rparr>"
  by (simp add: ra_state_B_def ra_state_reset_def ra_state_A_def
      startAnimation_ReconstructionAnimation_def resetAnimation_timeout_def resetAnimation_def
      ra_initial_def constant_rnd_def containerWidth_def containerHeight_def)

lemma ra_run_B_value:
  "ra_run_B = \<lparr>ra_startTime = 500, ra_start = [\<lparr>pos_top = Num 225, pos_left = Num 325\<rparr>],
               ra_final = [\<lparr>pos_top = Num 300, pos_left = Num 400\<rparr>]\<rparr>"
  by (simp add: ra_run_B_def ra_state_reset_def ra_state_A_def
      startAnimation_ReconstructionAnimation_def resetAnimation_timeout_def resetAnimation_def
      ra_initial_def constant_rnd_def finalPositions_def scale_ReconstructionAnimation_def
      containerWidth_def containerHeight_def)

text \<open>
  Claim C1, as stated, fails in ReconstructionAnimation, whose \<open>animate\<close> has no
  generation test. Run A is started at time 0; the animation is reset and the piece gets
  a new position, (225, 325); run B is started at time 500. A frame of run A at time
  1000 then overwrites the position with A's own interpolation, (1055/4, 705/2), writes
  the progress 7/8 and requests a further frame.
\<close>

theorem stale_frame_overwrites_counterexample:
  "startAnimation_ReconstructionAnimation 0 4 \<lparr>width = 200, height = 150\<rparr>
     [\<lparr>coord_piece_index = 0, coord_top = 300, coord_left = 400\<rparr>] ra_initial
     = (ra_state_A, Some ra_run_A)
   \<and> startAnimation_ReconstructionAnimation 500 4 \<lparr>width = 200, height = 150\<rparr>
     [\<lparr>coord_piece_index = 0, coord_top = 300, coord_left = 400\<rparr>] ra_state_reset
     = (ra_state_B, Some ra_run_B)
   \<and> ra_positions ra_state_B = [\<lparr>pos_top = Num 225, pos_left = Num 325\<rparr>]
   \<and> ra_positions (fst (animate_ReconstructionAnimation ra_run_A 1000 ra_state_B))
       = [\<lparr>pos_top = Num (1055 / 4), pos_left = Num (705 / 2)\<rparr>]
   \<and> ra_animationProgress (fst (animate_ReconstructionAnimation ra_run_A 1000 ra_state_B)) = 7 / 8
   \<and> snd (animate_ReconstructionAnimation ra_run_A 1000 ra_state_B)"
proof -
  have a: "startAnimation_ReconstructionAnimation 0 4 \<lparr>width = 200, height = 150\<rparr>
     [\<lparr>coord_piece_index = 0, coord_top = 300, coord_left = 400\<rparr>] ra_initial
     = (ra_state_A, Some ra_run_A)"
    unfolding ra_state_A_def ra_run_A_def by (rule startAnimation_RA_Some)
  have b: "startAnimation_ReconstructionAnimation 500 4 \<lparr>width = 200, height = 150\<rparr>
     [\<lparr>coord_piece_index = 0, coord_top = 300, coord_left = 400\<rparr>] ra_state_reset
     = (ra_state_B, Some ra_run_B)"
    unfolding ra_state_B_def ra_run_B_def by (rule startAnimation_RA_Some)
  have c: "ra_positions ra_state_B = [\<lparr>pos_top = Num 225, pos_left = Num 325\<rparr>]"
    by (simp add: ra_state_B_value)
  have d: "animate_ReconstructionAnimation ra_run_A 1000 ra_state_B
      = (\<lparr>ra_positions = [\<lparr>pos_top = Num (1055 / 4), pos_left = Num (705 / 2)\<rparr>],
          ra_isAnimating = True, ra_animationProgress = 7 / 8\<rparr>, True)"
    by (simp add: ra_run_A_value ra_state_B_value animate_ReconstructionAnimation_def Let_def
        progress_of_def easeOutCubic_of_def animationDuration_def power3_eq_cube lerp_Num)
  show ?thesis
    unfolding d using a b c by simp
qed

text \<open>
  Claim C1, amended: in App, the engine with the generation counter. Let run \<open>r\<close> be
  started by \<open>startAnimation\<close>, and let a newer run \<open>r'\<close> be started after any sequence
  \<open>es1\<close> of starts, frame callbacks of any run, closes, resets, uploads, rebuilds and
  effects. Then after any further such sequence \<open>es2\<close> the generation of \<open>r\<close> is below
  the engine's counter, and a frame callback of \<open>r\<close> at any time \<open>t\<close> returns the state
  unchanged (no piece position, no committed snapshot, no phase is written) and
  requests no further frame.
\<close>

theorem stale_run_performs_no_write:
  assumes "startAnimation rnd now pd s = (s1, Some r)"
      and "startAnimation rnd' now' pd' (exec es1 s1) = (s2, Some r')"
  shows "currentAnimationId r < animationIdRef (exec es2 s2)
       \<and> animate r t (exec es2 s2) = (exec es2 s2, False)
       \<and> step (Frame r t) (exec es2 s2) = exec es2 s2"
proof -
  from startAnimation_run [OF assms(1)]
  have r: "currentAnimationId r = animationIdRef s1" by simp
  have "animationIdRef s1 \<le> animationIdRef (exec es1 s1)"
    by (rule animationIdRef_exec)
  also from startAnimation_run [OF assms(2)]
  have "animationIdRef (exec es1 s1) < animationIdRef s2" by simp
  also have "animationIdRef s2 \<le> animationIdRef (exec es2 s2)"
    by (rule animationIdRef_exec)
  finally have lt: "currentAnimationId r < animationIdRef (exec es2 s2)"
    by (simp add: r)
  then have "animate r t (exec es2 s2) = (exec es2 s2, False)"
    by (intro animate_stale) simp
  with lt show ?thesis by simp
qed

lemma startAnimation_Some:
  "startAnimation rnd now (Some pd) s
     = (fst (startAnimation rnd now (Some pd) s), Some (the (snd (startAnimation rnd now (Some pd) s))))"
  by (simp add: startAnimation_def Let_def)

theorem stale_run_performs_no_write_witness:
  "startAnimation (constant_rnd (1 / 4)) 0 (Some example_placement) initial_state
     = (state_A, Some run_A)
   \<and> startAnimation (constant_rnd (3 / 4)) 1000 (Some example_placement)
        (exec [Frame run_A 500, Close] state_A) = (state_B, Some run_B)
   \<and> animate run_A 1200 (exec [Frame run_B 1100, Close] state_B)
        = (exec [Frame run_B 1100, Close] state_B, False)"
proof -
  have a: "startAnimation (constant_rnd (1 / 4)) 0 (Some example_placement) initial_state
     = (state_A, Some run_A)"
    unfolding state_A_def run_A_def by (rule startAnimation_Some)
  have b: "startAnimation (constant_rnd (3 / 4)) 1000 (Some example_placement)
        (exec [Frame run_A 500, Close] state_A) = (state_B, Some run_B)"
    unfolding state_B_def run_B_def by (rule startAnimation_Some)
  from stale_run_performs_no_write [OF a b, of "[Frame run_B 1100, Close]" 1200] a b
  show ?thesis by simp
qed

lemma run_A_value:
  "run_A = \<lparr>currentAnimationId = 1, startTime = 0,
            scattered = [\<lparr>piece_index = 0, filename = ''piece_0.png'', final_position = (200, 300),
                           scattered_position = (150, 100), current_position = (150, 100)\<rparr>]\<rparr>"
  by (simp add: run_A_def startAnimation_def Let_def generateScatteredPositions_def
      example_placement_def constant_rnd_def margin_def piece.defs scattered_piece.defs initial_state_def)

lemma state_A_gen: "animationIdRef state_A = 1"
  by (simp add: state_A_def startAnimation_def Let_def initial_state_def)

text \<open>
  Claim C2, as stated, fails in App: \<open>animate\<close> reads the final position of a piece
  and does not use it. For the piece scattered at (150, 100) with final position
  (200, 300), the frame at half the duration puts it at (75/4, 25/2), on the way to
  (0, 0), where interpolation towards the final position would give 775/4 for x; the
  final commit puts it at (0, 0), not at (200, 300).
\<close>

theorem animate_ignores_final_position_counterexample:
  "map scattered_position (scattered run_A) = [(150, 100)]
   \<and> map final_position (scattered run_A) = [(200, 300)]
   \<and> map current_position (animationRef (fst (animate run_A 1000 state_A))) = [(75 / 4, 25 / 2)]
   \<and> 150 + (200 - 150) * easeOutCubic_of (progress_of 1000 animationDuration) = (775 / 4 :: real)
   \<and> map current_position (scatteredPieces (fst (animate run_A 2000 state_A))) = [(0, 0)]
   \<and> animationPhase (fst (animate run_A 2000 state_A)) = Complete"
  by (simp add: run_A_value state_A_gen animate_def Let_def move_piece_def progress_of_def
      easeOutCubic_of_def animationDuration_def power3_eq_cube)

lemma move_piece_eq:
  "move_piece e p = p\<lparr>current_position :=
      (fst (scattered_position p) + (0 - fst (scattered_position p)) * e,
       snd (scattered_position p) + (0 - snd (scattered_position p)) * e)\<rparr>"
  by (simp add: move_piece_def case_prod_beta)

lemma progress_of_done: "animationDuration \<le> e \<Longrightarrow> progress_of e animationDuration = 1"
  by (simp add: progress_of_def animationDuration_def)

lemma progress_of_running: "e < animationDuration \<Longrightarrow> progress_of e animationDuration < 1"
  by (simp add: progress_of_def animationDuration_def)

lemma easeOutCubic_of_1 [simp]: "easeOutCubic_of 1 = 1"
  by (simp add: easeOutCubic_of_def)

lemma animate_current:
  assumes "currentAnimationId r = animationIdRef s"
  shows "animationRef (fst (animate r t s))
           = map (move_piece (easeOutCubic_of (progress_of (t - startTime r) animationDuration)))
               (scattered r)"
  using assms by (simp add: animate_def Let_def)

lemma animate_complete:
  assumes "currentAnimationId r = animationIdRef s" and "startTime r + animationDuration \<le> t"
  shows "animate r t s
           = (s\<lparr>animationRef := map (move_piece 1) (scattered r),
                 scatteredPieces := map (move_piece 1) (scattered r),
                 animationPhase := Complete\<rparr>, False)"
proof -
  have "progress_of (t - startTime r) animationDuration = 1"
    using assms(2) by (intro progress_of_done) simp
  then show ?thesis
    using assms(1) by (simp add: animate_def Let_def)
qed

lemma animate_running:
  assumes "currentAnimationId r = animationIdRef s" and "t < startTime r + animationDuration"
  shows "snd (animate r t s)"
proof -
  have "progress_of (t - startTime r) animationDuration < 1"
    using assms(2) by (intro progress_of_running) simp
  then show ?thesis
    using assms(1) by (simp add: animate_def Let_def)
qed

lemma animate_RA_nth:
  assumes "i < length (ra_start rr)"
  shows "ra_positions (fst (animate_ReconstructionAnimation rr now s)) ! i
      = (if i < length (ra_final rr)
         then \<lparr>pos_top = pos_top (ra_start rr ! i)
                    + (pos_top (ra_final rr ! i) - pos_top (ra_start rr ! i))
                      * Num (easeOutCubic_of (progress_of (now - ra_startTime rr) animationDuration)),
               pos_left = pos_left (ra_start rr ! i)
                    + (pos_left (ra_final rr ! i) - pos_left (ra_start rr ! i))
                      * Num (easeOutCubic_of (progress_of (now - ra_startTime rr) animationDuration))\<rparr>
         else ra_start rr ! i)"
  using assms by (simp add: animate_ReconstructionAnimation_def Let_def)

lemma animate_RA_length:
  "length (ra_positions (fst (animate_ReconstructionAnimation rr now s))) = length (ra_start rr)"
  by (simp add: animate_ReconstructionAnimation_def Let_def)

lemma animate_RA_done:
  assumes "ra_startTime rr + animationDuration \<le> now"
  shows "animate_ReconstructionAnimation rr now s
      = ((fst (animate_ReconstructionAnimation rr now s))
           \<lparr>ra_animationProgress := 1, ra_isAnimating := False\<rparr>, False)"
proof -
  have "progress_of (now - ra_startTime rr) animationDuration = 1"
    using assms by (intro progress_of_done) simp
  then show ?thesis
    by (simp add: animate_ReconstructionAnimation_def Let_def)
qed

text \<open>
  Claim C2, amended. In App, every frame of the current run sets each piece's working
  position to \<open>start + (0 - start) * eased\<close> per axis, where \<open>start\<close> is the
  scattered position and the target is the overlay origin (0, 0), not the piece's final
  position; when the elapsed time reaches the duration the final commit sets every
  position to exactly (0, 0), the phase to \<open>Complete\<close>, and requests no further frame.
  In ReconstructionAnimation, every frame sets the position of each piece that has a
  final position to the value of \<open>start + (final - start) * eased\<close> per axis (for
  finite numbers the interpolation between the two) and leaves the other pieces at their
  start position; when the elapsed time reaches the duration the last frame uses
  \<open>eased = 1\<close>, writes the progress 1, ends the animation and requests no further
  frame, and the scatter effect that follows replaces the positions by a new scatter.
  Nothing is stated about the exactness of the last position in ReconstructionAnimation.
\<close>

theorem animate_interpolates_towards_target:
  assumes "currentAnimationId r = animationIdRef s"
  shows "animationRef (fst (animate r t s))
           = map (\<lambda>p. p\<lparr>current_position :=
                (fst (scattered_position p) + (0 - fst (scattered_position p))
                    * easeOutCubic_of (progress_of (t - startTime r) animationDuration),
                 snd (scattered_position p) + (0 - snd (scattered_position p))
                    * easeOutCubic_of (progress_of (t - startTime r) animationDuration))\<rparr>)
               (scattered r)
       \<and> (startTime r + animationDuration \<le> t \<longrightarrow>
            scatteredPieces (fst (animate r t s))
              = map (\<lambda>p. p\<lparr>current_position := (0, 0)\<rparr>) (scattered r)
          \<and> animationRef (fst (animate r t s))
              = map (\<lambda>p. p\<lparr>current_position := (0, 0)\<rparr>) (scattered r)
          \<and> animationPhase (fst (animate r t s)) = Complete
          \<and> \<not> snd (animate r t s))
       \<and> (t < startTime r + animationDuration \<longrightarrow> snd (animate r t s))
       \<and> length (ra_positions (fst (animate_ReconstructionAnimation rr now s')))
            = length (ra_start rr)
       \<and> (\<forall>i. i < length (ra_start rr) \<and> i < length (ra_final rr) \<longrightarrow>
            ra_positions (fst (animate_ReconstructionAnimation rr now s')) ! i
              = \<lparr>pos_top = pos_top (ra_start rr ! i)
                    + (pos_top (ra_final rr ! i) - pos_top (ra_start rr ! i))
                      * Num (easeOutCubic_of (progress_of (now - ra_startTime rr) animationDuration)),
                 pos_left = pos_left (ra_start rr ! i)
                    + (pos_left (ra_final rr ! i) - pos_left (ra_start rr ! i))
                      * Num (easeOutCubic_of (progress_of (now - ra_startTime rr) animationDuration))\<rparr>)
       \<and> (\<forall>i p q. i < length (ra_start rr) \<and> i < length (ra_final rr)
              \<and> ra_start rr ! i = finite_position p \<and> ra_final rr ! i = finite_position q \<longrightarrow>
            ra_positions (fst (animate_ReconstructionAnimation rr now s')) ! i
              = finite_position
                  \<lparr>pos_top = pos_top p + (pos_top q - pos_top p)
                      * easeOutCubic_of (progress_of (now - ra_startTime rr) animationDuration),
                   pos_left = pos_left p + (pos_left q - pos_left p)
                      * easeOutCubic_of (progress_of (now - ra_startTime rr) animationDuration)\<rparr>)
       \<and> (\<forall>i. i < length (ra_start rr) \<and> length (ra_final rr) \<le> i \<longrightarrow>
            ra_positions (fst (animate_ReconstructionAnimation rr now s')) ! i = ra_start rr ! i)
       \<and> (ra_startTime rr + animationDuration \<le> now \<longrightarrow>
            ra_animationProgress (fst (animate_ReconstructionAnimation rr now s')) = 1
          \<and> \<not> ra_isAnimating (fst (animate_ReconstructionAnimation rr now s'))
          \<and> \<not> snd (animate_ReconstructionAnimation rr now s')
          \<and> ra_positions (scatterEffect rnd pcs (fst (animate_ReconstructionAnimation rr now s')))
              = map finite_position (scatter_ReconstructionAnimation rnd pcs))"
proof -
  let ?e = "easeOutCubic_of (progress_of (now - ra_startTime rr) animationDuration)"
  let ?s = "fst (animate_ReconstructionAnimation rr now s')"
  have zero: "move_piece 1 = (\<lambda>p. p\<lparr>current_position := (0, 0)\<rparr>)"
    by (simp add: move_piece_eq fun_eq_iff)
  have 1: "animationRef (fst (animate r t s))
           = map (\<lambda>p. p\<lparr>current_position :=
                (fst (scattered_position p) + (0 - fst (scattered_position p))
                    * easeOutCubic_of (progress_of (t - startTime r) animationDuration),
                 snd (scattered_position p) + (0 - snd (scattered_position p))
                    * easeOutCubic_of (progress_of (t - startTime r) animationDuration))\<rparr>)
               (scattered r)"
    unfolding animate_current [OF assms] by (simp add: move_piece_eq)
  have 2: "startTime r + animationDuration \<le> t \<longrightarrow>
            scatteredPieces (fst (animate r t s))
              = map (\<lambda>p. p\<lparr>current_position := (0, 0)\<rparr>) (scattered r)
          \<and> animationRef (fst (animate r t s))
              = map (\<lambda>p. p\<lparr>current_position := (0, 0)\<rparr>) (scattered r)
          \<and> animationPhase (fst (animate r t s)) = Complete
          \<and> \<not> snd (animate r t s)"
  proof
    assume "startTime r + animationDuration \<le> t"
    from animate_complete [OF assms this] show "scatteredPieces (fst (animate r t s))
              = map (\<lambda>p. p\<lparr>current_position := (0, 0)\<rparr>) (scattered r)
          \<and> animationRef (fst (animate r t s))
              = map (\<lambda>p. p\<lparr>current_position := (0, 0)\<rparr>) (scattered r)
          \<and> animationPhase (fst (animate r t s)) = Complete
          \<and> \<not> snd (animate r t s)"
      by (simp add: zero)
  qed
  have 3: "t < startTime r + animationDuration \<longrightarrow> snd (animate r t s)"
    using animate_running [OF assms] by blast
  have 4: "length (ra_positions ?s) = length (ra_start rr)"
    by (rule animate_RA_length)
  have 5: "\<forall>i. i < length (ra_start rr) \<and> i < length (ra_final rr) \<longrightarrow>
            ra_positions ?s ! i
              = \<lparr>pos_top = pos_top (ra_start rr ! i)
                    + (pos_top (ra_final rr ! i) - pos_top (ra_start rr ! i)) * Num ?e,
                 pos_left = pos_left (ra_start rr ! i)
                    + (pos_left (ra_final rr ! i) - pos_left (ra_start rr ! i)) * Num ?e\<rparr>"
    by (simp add: animate_RA_nth)
  have 6: "\<forall>i p q. i < length (ra_start rr) \<and> i < length (ra_final rr)
              \<and> ra_start rr ! i = finite_position p \<and> ra_final rr ! i = finite_position q \<longrightarrow>
            ra_positions ?s ! i
              = finite_position
                  \<lparr>pos_top = pos_top p + (pos_top q - pos_top p) * ?e,
                   pos_left = pos_left p + (pos_left q - pos_left p) * ?e\<rparr>"
    by (simp add: animate_RA_nth finite_position_def Num_add_mul)
  have 7: "\<forall>i. i < length (ra_start rr) \<and> length (ra_final rr) \<le> i \<longrightarrow>
            ra_positions ?s ! i = ra_start rr ! i"
    by (simp add: animate_RA_nth)
  have 8: "ra_startTime rr + animationDuration \<le> now \<longrightarrow>
            ra_animationProgress ?s = 1
          \<and> \<not> ra_isAnimating ?s
          \<and> \<not> snd (animate_ReconstructionAnimation rr now s')
          \<and> ra_positions (scatterEffect rnd pcs ?s)
              = map finite_position (scatter_ReconstructionAnimation rnd pcs)"
  proof
    assume "ra_startTime rr + animationDuration \<le> now"
    from animate_RA_done [OF this, of s']
    have d: "ra_animationProgress ?s = 1" "\<not> ra_isAnimating ?s"
      "\<not> snd (animate_ReconstructionAnimation rr now s')"
      by (metis fst_conv ra_state.select_convs(3) ra_state.surjective ra_state.update_convs(2,3),
          metis fst_conv ra_state.select_convs(2) ra_state.surjective ra_state.update_convs(2),
          metis snd_conv)
    then show "ra_animationProgress ?s = 1
          \<and> \<not> ra_isAnimating ?s
          \<and> \<not> snd (animate_ReconstructionAnimation rr now s')
          \<and> ra_positions (scatterEffect rnd pcs ?s)
              = map finite_position (scatter_ReconstructionAnimation rnd pcs)"
      by (simp add: scatterEffect_def)
  qed
  show ?thesis
    by (intro conjI) (rule 1 2 3 4 5 6 7 8)+
qed

theorem animate_interpolates_towards_target_witness:
  "currentAnimationId run_A = animationIdRef state_A
   \<and> map current_position (animationRef (fst (animate run_A 2000 state_A))) = [(0, 0)]
   \<and> map current_position (scatteredPieces (fst (animate run_A 2000 state_A))) = [(0, 0)]
   \<and> \<not> snd (animate run_A 2000 state_A)
   \<and> ra_positions (fst (animate_ReconstructionAnimation ra_run_A 500 ra_state_A)) ! 0
       = \<lparr>pos_top = Num (5685 / 32), pos_left = Num (3835 / 16)\<rparr>
   \<and> ra_animationProgress (fst (animate_ReconstructionAnimation ra_run_A 2000 ra_state_A)) = 1"
proof -
  have h: "currentAnimationId run_A = animationIdRef state_A"
    by (simp add: run_A_value state_A_gen)
  note t1 = animate_interpolates_towards_target [OF h, where t = 2000 and rr = ra_run_A
      and now = 500 and s' = ra_state_A and rnd = "constant_rnd (1 / 2)"
      and pcs = "[''a'']"]
  note t2 = animate_interpolates_towards_target [OF h, where t = 2000 and rr = ra_run_A
      and now = 2000 and s' = ra_state_A and rnd = "constant_rnd (1 / 2)"
      and pcs = "[''a'']"]
  from t1 have a: "map current_position (animationRef (fst (animate run_A 2000 state_A))) = [(0, 0)]
   \<and> map current_position (scatteredPieces (fst (animate run_A 2000 state_A))) = [(0, 0)]
   \<and> \<not> snd (animate run_A 2000 state_A)"
    by (simp add: run_A_value animationDuration_def progress_of_def easeOutCubic_of_def)
  from t1 have b: "ra_positions (fst (animate_ReconstructionAnimation ra_run_A 500 ra_state_A)) ! 0
       = \<lparr>pos_top = Num (5685 / 32), pos_left = Num (3835 / 16)\<rparr>"
    by (simp add: ra_run_A_value animationDuration_def progress_of_def easeOutCubic_of_def
        power3_eq_cube Num_add_mul)
  from t2 have c: "ra_animationProgress (fst (animate_ReconstructionAnimation ra_run_A 2000 ra_state_A)) = 1"
    by (simp add: ra_run_A_value animationDuration_def)
  from h a b c show ?thesis
    by blast
qed

text \<open>
  Only \<open>startAnimation\<close> changes the generation counter: a close, a reset, an upload
  or a rebuild alone leaves a run current, and its next frame still writes.
\<close>

lemma reset_keeps_generation:
  "animationIdRef (closeAnimation s) = animationIdRef s"
  "animationIdRef (resetState s) = animationIdRef s"
  "animationIdRef (handleReset s) = animationIdRef s"
  "animationIdRef (handleImageUpload file s) = animationIdRef s"
  "animationIdRef (handleZipUpload file s) = animationIdRef s"
  "animationIdRef (fst (handleRebuild res s)) = animationIdRef s"
  by (simp_all add: closeAnimation_def resetState_def handleReset_def handleImageUpload_def
      handleZipUpload_def handleRebuild_def Let_def split: response.splits option.splits)

lemma frame_after_close_still_writes:
  assumes "currentAnimationId r = animationIdRef s"
  shows "animationRef (fst (animate r t (closeAnimation s)))
           = map (move_piece (easeOutCubic_of (progress_of (t - startTime r) animationDuration)))
               (scattered r)"
  by (rule animate_current) (simp add: assms reset_keeps_generation)

subsection \<open>Shatter and load\<close>

lemma handleShatter_mismatch:
  assumes "uploadedFile s = Some file" and "data_pieces data = Some ps"
      and "int (length ps) \<noteq> pieceCount s"
  shows "handleShatter (Json data) s
           = s\<lparr>loading := False, showGame := False,
               error := Some (CountMismatch (pieceCount s) (length ps)),
               rebuiltUrl := None, shatterRuntime := None, timingBreakdown := None\<rparr>"
  using assms by (simp add: handleShatter_def Let_def)

lemma handleLoadZipPieces_mismatch:
  assumes "uploadedZipFile s = Some file" and "data_pieces data = Some ps"
      and "int (length ps) \<noteq> pieceCount s"
  shows "handleLoadZipPieces (Json data) s
           = s\<lparr>loading := False, showGame := False,
               error := Some (CountMismatch (pieceCount s) (length ps)),
               rebuiltUrl := None, rebuildRuntime := None, rebuildTimingBreakdown := None\<rparr>"
  using assms by (simp add: handleLoadZipPieces_def Let_def)

text \<open>
  Claim C8. When the response of a shatter or load request carries a piece list whose
  length differs from the requested piece count, the handler reports the count mismatch
  through the error state and accepts nothing: the piece list and the shuffled order
  keep their previous values (no truncated subset is stored), \<open>shattered\<close> and the image
  size are unchanged, and no field of the animation engine changes: placement data,
  \<open>isAnimating\<close>, scattered pieces, phase, working copy, generation counter. An idle
  engine stays idle. (\<open>h\<close> is either handler, for a request that was sent.)
\<close>

theorem count_mismatch_is_reported_and_keeps_pieces:
  assumes "data_pieces data = Some ps" and "int (length ps) \<noteq> pieceCount s"
      and "(h = handleShatter \<and> uploadedFile s \<noteq> None)
         \<or> (h = handleLoadZipPieces \<and> uploadedZipFile s \<noteq> None)"
  shows "error (h (Json data) s) = Some (CountMismatch (pieceCount s) (length ps))
       \<and> pieces (h (Json data) s) = pieces s
       \<and> shuffledPieces (h (Json data) s) = shuffledPieces s
       \<and> originalImageSize (h (Json data) s) = originalImageSize s
       \<and> shattered (h (Json data) s) = shattered s
       \<and> placementData (h (Json data) s) = placementData s
       \<and> isAnimating (h (Json data) s) = isAnimating s
       \<and> scatteredPieces (h (Json data) s) = scatteredPieces s
       \<and> animationPhase (h (Json data) s) = animationPhase s
       \<and> animationRef (h (Json data) s) = animationRef s
       \<and> animationIdRef (h (Json data) s) = animationIdRef s
       \<and> currentPlacementDataRef (h (Json data) s) = currentPlacementDataRef s
       \<and> pieceCount (h (Json data) s) = pieceCount s
       \<and> \<not> loading (h (Json data) s)"
  using assms(3)
proof
  assume "h = handleShatter \<and> uploadedFile s \<noteq> None"
  then obtain f where "h = handleShatter" and "uploadedFile s = Some f"
    by auto
  then show ?thesis
    by (simp add: handleShatter_mismatch [OF _ assms(1,2)])
next
  assume "h = handleLoadZipPieces \<and> uploadedZipFile s \<noteq> None"
  then obtain f where "h = handleLoadZipPieces" and "uploadedZipFile s = Some f"
    by auto
  then show ?thesis
    by (simp add: handleLoadZipPieces_mismatch [OF _ assms(1,2)])
qed

theorem count_mismatch_is_reported_and_keeps_pieces_witness:
  "data_pieces short_response = Some [''piece_0.png'', ''piece_1.png'']
   \<and> int (length [''piece_0.png'', ''piece_1.png'']) \<noteq> pieceCount loaded_state
   \<and> uploadedFile loaded_state \<noteq> None
   \<and> error (handleShatter (Json short_response) loaded_state) = Some (CountMismatch 50 2)
   \<and> pieces (handleShatter (Json short_response) loaded_state) = [''old_0.png'']
   \<and> shuffledPieces (handleShatter (Json short_response) loaded_state) = [''old_0.png'']
   \<and> isAnimating (handleShatter (Json short_response) loaded_state) = False"
proof -
  have a: "data_pieces short_response = Some [''piece_0.png'', ''piece_1.png'']"
    by (simp add: short_response_def)
  have b: "int (length [''piece_0.png'', ''piece_1.png'']) \<noteq> pieceCount loaded_state"
    by (simp add: loaded_state_def initial_state_def)
  have c: "uploadedFile loaded_state \<noteq> None"
    by (simp add: loaded_state_def)
  have d: "(handleShatter = handleShatter \<and> uploadedFile loaded_state \<noteq> None)
         \<or> (handleShatter = handleLoadZipPieces \<and> uploadedZipFile loaded_state \<noteq> None)"
    using c by simp
  from count_mismatch_is_reported_and_keeps_pieces [OF a b d]
  have "error (handleShatter (Json short_response) loaded_state) = Some (CountMismatch 50 2)
   \<and> pieces (handleShatter (Json short_response) loaded_state) = [''old_0.png'']
   \<and> shuffledPieces (handleShatter (Json short_response) loaded_state) = [''old_0.png'']
   \<and> isAnimating (handleShatter (Json short_response) loaded_state) = False"
    by (simp add: loaded_state_def initial_state_def)
  with a b c show ?thesis
    by blast
qed

end
